theory Spec2Isabelle
  imports Complex_Main
begin

section \<open>Python and NumPy primitives used by the notebooks\<close>

text \<open>
  The two notebooks (the Theano one and the TensorFlow one) share their helper cells:
  \<^verbatim>\<open>y2indicator\<close>, \<^verbatim>\<open>error_rate\<close>, \<^verbatim>\<open>get_normalized_data\<close>, the train/holdout split and
  the slicing of minibatches. Arrays are lists (a matrix is the list of its rows); float32
  and float64 values are idealised as reals, so rounding, infinities and NaN are outside
  this development. Python integers are \<^typ>\<open>int\<close>.
\<close>

text \<open>
  A Python index \<open>i\<close> of a slice over \<open>n\<close> rows: negative indices count from the end, and
  the result is clamped into \<open>[0, n]\<close>.
\<close>

definition clamp_index :: "int \<Rightarrow> int \<Rightarrow> int" where
  "clamp_index n i = (if i < 0 then max 0 (i + n) else min i n)"

text \<open>\<^verbatim>\<open>xs[a:b]\<close> with step 1; \<open>None\<close> is an omitted bound.\<close>

definition py_slice :: "'a list \<Rightarrow> int option \<Rightarrow> int option \<Rightarrow> 'a list" where
  "py_slice xs a b =
     (let n = int (length xs);
          lo = (case a of None \<Rightarrow> 0 | Some i \<Rightarrow> clamp_index n i);
          hi = (case b of None \<Rightarrow> n | Some i \<Rightarrow> clamp_index n i)
      in take (nat (hi - lo)) (drop (nat lo) xs))"

text \<open>\<^verbatim>\<open>int(x)\<close> of a float truncates towards zero; \<^verbatim>\<open>range(n)\<close> is empty for \<open>n \<le> 0\<close>.\<close>

definition py_int :: "real \<Rightarrow> int" where
  "py_int x = (if 0 \<le> x then \<lfloor>x\<rfloor> else \<lceil>x\<rceil>)"

definition py_range :: "int \<Rightarrow> int list" where
  "py_range n = map int [0..<nat n]"

definition np_mean :: "real list \<Rightarrow> real" where
  "np_mean xs = sum_list xs / real (length xs)"

text \<open>\<^verbatim>\<open>def error_rate(p, t): return np.mean(p != t)\<close>, on two arrays of the same length.\<close>

definition error_rate :: "real list \<Rightarrow> real list \<Rightarrow> real" where
  "error_rate p t = np_mean (map2 (\<lambda>a b. if a \<noteq> b then 1 else 0) p t)"

subsection \<open>The indicator matrix\<close>

text \<open>
  \<^verbatim>\<open>y.astype(np.int32)\<close> truncates towards zero. Outside the 32-bit range the C cast behind
  it is undefined, and the model stops there with \<open>None\<close>.
\<close>

definition astype_int32 :: "real \<Rightarrow> int option" where
  "astype_int32 x =
     (let k = py_int x in if - (2 ^ 31) \<le> k \<and> k < 2 ^ 31 then Some k else None)"

definition np_zeros2 :: "nat \<Rightarrow> nat \<Rightarrow> real list list" where
  "np_zeros2 n k = replicate n (replicate k 0)"

text \<open>
  \<^verbatim>\<open>ind[i, k] = v\<close>: the row \<open>i\<close> comes from \<^verbatim>\<open>range(N)\<close>; the column \<open>k\<close> is a signed
  integer, negative columns count from the end, and a column outside the row raises
  IndexError (\<open>None\<close>).
\<close>

definition setitem2 :: "real list list \<Rightarrow> nat \<Rightarrow> int \<Rightarrow> real \<Rightarrow> real list list option" where
  "setitem2 ind i k v =
     (if i < length ind then
        (let row = ind ! i; n = int (length row)
         in if - n \<le> k \<and> k < n
            then Some (ind[i := row[nat (if k < 0 then k + n else k) := v]])
            else None)
      else None)"

text \<open>The loop \<^verbatim>\<open>for i in range(N): ind[i, y[i]] = 1\<close>.\<close>

fun y2indicator_loop :: "int list \<Rightarrow> nat list \<Rightarrow> real list list \<Rightarrow> real list list option" where
  "y2indicator_loop y [] ind = Some ind"
| "y2indicator_loop y (i # is) ind =
     (case setitem2 ind i (y ! i) 1 of
        None \<Rightarrow> None
      | Some ind' \<Rightarrow> y2indicator_loop y is ind')"

definition y2indicator :: "real list \<Rightarrow> real list list option" where
  "y2indicator y =
     (let N = length y
      in case those (map astype_int32 y) of
           None \<Rightarrow> None
         | Some y' \<Rightarrow> y2indicator_loop y' [0..<N] (np_zeros2 N 10))"

subsection \<open>Normalisation\<close>












subsection \<open>The train/holdout split\<close>

text \<open>
  \<^verbatim>\<open>
  Xtrain = X[:-1000,]
  Ytrain = Y[:-1000]
  Xtest  = X[-1000:,]
  Ytest  = Y[-1000:]
  \<close>
\<close>

definition Xtrain :: "'a list \<Rightarrow> 'a list" where
  "Xtrain X = py_slice X None (Some (- 1000))"

definition Ytrain :: "'a list \<Rightarrow> 'a list" where
  "Ytrain Y = py_slice Y None (Some (- 1000))"

definition Xtest :: "'a list \<Rightarrow> 'a list" where
  "Xtest X = py_slice X (Some (- 1000)) None"

definition Ytest :: "'a list \<Rightarrow> 'a list" where
  "Ytest Y = py_slice Y (Some (- 1000)) None"

subsection \<open>Minibatches\<close>

text \<open>
  \<^verbatim>\<open>n_batches = N / batch_sz\<close> is Python 3's true division (ZeroDivisionError for a zero
  batch size); both loops then run \<^verbatim>\<open>for j in range(int(n_batches))\<close> and slice
  \<^verbatim>\<open>Xtrain[j*batch_sz:(j*batch_sz + batch_sz),]\<close>, and the same for \<^verbatim>\<open>Ytrain_ind\<close>.
  The quotient is a real number here; the float Python computes truncates to the same
  integer as long as \<open>N\<close> is below \<open>2 ^ 53\<close>.
\<close>

definition n_batches :: "int \<Rightarrow> int \<Rightarrow> real option" where
  "n_batches N batch_sz = (if batch_sz = 0 then None else Some (real_of_int N / real_of_int batch_sz))"

definition Xbatch :: "int \<Rightarrow> 'a list \<Rightarrow> int \<Rightarrow> 'a list" where
  "Xbatch batch_sz Xtr j = py_slice Xtr (Some (j * batch_sz)) (Some (j * batch_sz + batch_sz))"

definition Ybatch :: "int \<Rightarrow> 'a list \<Rightarrow> int \<Rightarrow> 'a list" where
  "Ybatch batch_sz Ytr_ind j = py_slice Ytr_ind (Some (j * batch_sz)) (Some (j * batch_sz + batch_sz))"

section \<open>The Theano notebook: shared variables and compiled functions\<close>

text \<open>
  A tensor is its shape and its values in row-major order. Scalars of type float32
  (\<^verbatim>\<open>lr\<close>, \<^verbatim>\<open>mu\<close>) multiply a tensor entry by entry; the sum and the difference of two
  tensors are entry by entry too, and since no dimension of a shared variable is
  broadcastable, two operands of different shapes raise an error (\<open>None\<close>).
\<close>

record tensor =
  shape :: "nat list"
  vals :: "real list"

definition wf_tensor :: "tensor \<Rightarrow> bool" where
  "wf_tensor t = (length (vals t) = prod_list (shape t))"

definition np_zeros :: "nat list \<Rightarrow> tensor" where
  "np_zeros sh = \<lparr>shape = sh, vals = replicate (prod_list sh) 0\<rparr>"

definition smul :: "real \<Rightarrow> tensor \<Rightarrow> tensor" where
  "smul c t = \<lparr>shape = shape t, vals = map (\<lambda>x. c * x) (vals t)\<rparr>"

definition tadd :: "tensor \<Rightarrow> tensor \<Rightarrow> tensor option" where
  "tadd a b =
     (if shape a = shape b
      then Some \<lparr>shape = shape a, vals = map2 (+) (vals a) (vals b)\<rparr>
      else None)"

definition tsub :: "tensor \<Rightarrow> tensor \<Rightarrow> tensor option" where
  "tsub a b =
     (if shape a = shape b
      then Some \<lparr>shape = shape a, vals = map2 (-) (vals a) (vals b)\<rparr>
      else None)"

text \<open>
  The sixteen shared variables of the notebook: eight parameters and, for each, its
  momentum accumulator. The state of the program is the value of each of them.
\<close>

datatype var = W1 | b1 | W2 | b2 | W3 | b3 | W4 | b4
  | dW1 | db1 | dW2 | db2 | dW3 | db3 | dW4 | db4

type_synonym store = "var \<Rightarrow> tensor"

text \<open>
  \<^verbatim>\<open>
  W1 = theano.shared(W1_init, 'W1')
  ...
  dW1 = theano.shared(np.zeros(W1_init.shape, dtype=np.float32), 'dW1')
  ...
  \<close>
  The initial values of the parameters are random (or zero, for the biases); they are the
  argument \<open>init\<close>, read at the eight parameters only.
\<close>

definition initial_store :: "(var \<Rightarrow> tensor) \<Rightarrow> store" where
  "initial_store init = (\<lambda>v. case v of
       W1 \<Rightarrow> init W1 | b1 \<Rightarrow> init b1 | W2 \<Rightarrow> init W2 | b2 \<Rightarrow> init b2
     | W3 \<Rightarrow> init W3 | b3 \<Rightarrow> init b3 | W4 \<Rightarrow> init W4 | b4 \<Rightarrow> init b4
     | dW1 \<Rightarrow> np_zeros (shape (init W1)) | db1 \<Rightarrow> np_zeros (shape (init b1))
     | dW2 \<Rightarrow> np_zeros (shape (init W2)) | db2 \<Rightarrow> np_zeros (shape (init b2))
     | dW3 \<Rightarrow> np_zeros (shape (init W3)) | db3 \<Rightarrow> np_zeros (shape (init b3))
     | dW4 \<Rightarrow> np_zeros (shape (init W4)) | db4 \<Rightarrow> np_zeros (shape (init b4)))"

text \<open>\<^verbatim>\<open>params = (W1, b1, W2, b2, W3, b3, W4, b4)\<close>, and the accumulator of each.\<close>

definition params :: "var list" where
  "params = [W1, b1, W2, b2, W3, b3, W4, b4]"

definition accumulators :: "var list" where
  "accumulators = [dW1, db1, dW2, db2, dW3, db3, dW4, db4]"

text \<open>
  The forward pass (convolution, pooling, softmax), the cost and its symbolic gradient
  \<^verbatim>\<open>T.grad(cost, W)\<close> belong to the library. They are opaque functions of the values of
  the eight parameters and of the minibatch: \<open>pY_of\<close> gives the class probabilities of
  every sample, \<open>cost_of\<close> the scalar cost, \<open>grad_of\<close> the gradient of the cost with
  respect to one parameter.
\<close>

record 'x evaluator =
  pY_of :: "tensor list \<Rightarrow> 'x list \<Rightarrow> real list list"
  cost_of :: "tensor list \<Rightarrow> 'x list \<Rightarrow> real list list \<Rightarrow> real"
  grad_of :: "tensor list \<Rightarrow> 'x list \<Rightarrow> real list list \<Rightarrow> var \<Rightarrow> tensor"

definition cost :: "'x evaluator \<Rightarrow> store \<Rightarrow> 'x list \<Rightarrow> real list list \<Rightarrow> real" where
  "cost ev s X Y = cost_of ev (map s params) X Y"

definition T_grad :: "'x evaluator \<Rightarrow> store \<Rightarrow> 'x list \<Rightarrow> real list list \<Rightarrow> var \<Rightarrow> tensor" where
  "T_grad ev s X Y w = grad_of ev (map s params) X Y w"

text \<open>\<^verbatim>\<open>T.argmax(pY, axis=1)\<close>: for every row, the index of the first greatest entry.\<close>

fun argmax :: "real list \<Rightarrow> nat" where
  "argmax [] = 0"
| "argmax [x] = 0"
| "argmax (x # y # ys) = (let k = argmax (y # ys) in if x < (y # ys) ! k then Suc k else 0)"

definition prediction :: "'x evaluator \<Rightarrow> store \<Rightarrow> 'x list \<Rightarrow> nat list" where
  "prediction ev s X = map argmax (pY_of ev (map s params) X)"

text \<open>The hyperparameters of the notebook (\<^verbatim>\<open>reg\<close> lives inside the cost).\<close>

record hyper =
  max_iter :: int
  print_period :: int
  lr :: real
  mu :: real
  batch_sz :: int

text \<open>
  The update expressions, each a function of the values of the shared variables and of
  the inputs \<^verbatim>\<open>X\<close>, \<^verbatim>\<open>Y\<close>:
  \<^verbatim>\<open>
  update_W1 = W1 + mu*dW1 - lr*T.grad(cost, W1)
  ...
  update_dW1 = mu*dW1 - lr*T.grad(cost, W1)
  ...
  \<close>
\<close>

type_synonym 'x expr = "store \<Rightarrow> 'x list \<Rightarrow> real list list \<Rightarrow> tensor option"

definition update_W1 :: "hyper \<Rightarrow> 'x evaluator \<Rightarrow> 'x expr" where
  "update_W1 h ev s X Y =
     (case tadd (s W1) (smul (mu h) (s dW1)) of
        None \<Rightarrow> None | Some t \<Rightarrow> tsub t (smul (lr h) (T_grad ev s X Y W1)))"

definition update_b1 :: "hyper \<Rightarrow> 'x evaluator \<Rightarrow> 'x expr" where
  "update_b1 h ev s X Y =
     (case tadd (s b1) (smul (mu h) (s db1)) of
        None \<Rightarrow> None | Some t \<Rightarrow> tsub t (smul (lr h) (T_grad ev s X Y b1)))"

definition update_W2 :: "hyper \<Rightarrow> 'x evaluator \<Rightarrow> 'x expr" where
  "update_W2 h ev s X Y =
     (case tadd (s W2) (smul (mu h) (s dW2)) of
        None \<Rightarrow> None | Some t \<Rightarrow> tsub t (smul (lr h) (T_grad ev s X Y W2)))"

definition update_b2 :: "hyper \<Rightarrow> 'x evaluator \<Rightarrow> 'x expr" where
  "update_b2 h ev s X Y =
     (case tadd (s b2) (smul (mu h) (s db2)) of
        None \<Rightarrow> None | Some t \<Rightarrow> tsub t (smul (lr h) (T_grad ev s X Y b2)))"

definition update_W3 :: "hyper \<Rightarrow> 'x evaluator \<Rightarrow> 'x expr" where
  "update_W3 h ev s X Y =
     (case tadd (s W3) (smul (mu h) (s dW3)) of
        None \<Rightarrow> None | Some t \<Rightarrow> tsub t (smul (lr h) (T_grad ev s X Y W3)))"

definition update_b3 :: "hyper \<Rightarrow> 'x evaluator \<Rightarrow> 'x expr" where
  "update_b3 h ev s X Y =
     (case tadd (s b3) (smul (mu h) (s db3)) of
        None \<Rightarrow> None | Some t \<Rightarrow> tsub t (smul (lr h) (T_grad ev s X Y b3)))"

definition update_W4 :: "hyper \<Rightarrow> 'x evaluator \<Rightarrow> 'x expr" where
  "update_W4 h ev s X Y =
     (case tadd (s W4) (smul (mu h) (s dW4)) of
        None \<Rightarrow> None | Some t \<Rightarrow> tsub t (smul (lr h) (T_grad ev s X Y W4)))"

definition update_b4 :: "hyper \<Rightarrow> 'x evaluator \<Rightarrow> 'x expr" where
  "update_b4 h ev s X Y =
     (case tadd (s b4) (smul (mu h) (s db4)) of
        None \<Rightarrow> None | Some t \<Rightarrow> tsub t (smul (lr h) (T_grad ev s X Y b4)))"

definition update_dW1 :: "hyper \<Rightarrow> 'x evaluator \<Rightarrow> 'x expr" where
  "update_dW1 h ev s X Y = tsub (smul (mu h) (s dW1)) (smul (lr h) (T_grad ev s X Y W1))"

definition update_db1 :: "hyper \<Rightarrow> 'x evaluator \<Rightarrow> 'x expr" where
  "update_db1 h ev s X Y = tsub (smul (mu h) (s db1)) (smul (lr h) (T_grad ev s X Y b1))"

definition update_dW2 :: "hyper \<Rightarrow> 'x evaluator \<Rightarrow> 'x expr" where
  "update_dW2 h ev s X Y = tsub (smul (mu h) (s dW2)) (smul (lr h) (T_grad ev s X Y W2))"

definition update_db2 :: "hyper \<Rightarrow> 'x evaluator \<Rightarrow> 'x expr" where
  "update_db2 h ev s X Y = tsub (smul (mu h) (s db2)) (smul (lr h) (T_grad ev s X Y b2))"

definition update_dW3 :: "hyper \<Rightarrow> 'x evaluator \<Rightarrow> 'x expr" where
  "update_dW3 h ev s X Y = tsub (smul (mu h) (s dW3)) (smul (lr h) (T_grad ev s X Y W3))"

definition update_db3 :: "hyper \<Rightarrow> 'x evaluator \<Rightarrow> 'x expr" where
  "update_db3 h ev s X Y = tsub (smul (mu h) (s db3)) (smul (lr h) (T_grad ev s X Y b3))"

definition update_dW4 :: "hyper \<Rightarrow> 'x evaluator \<Rightarrow> 'x expr" where
  "update_dW4 h ev s X Y = tsub (smul (mu h) (s dW4)) (smul (lr h) (T_grad ev s X Y W4))"

definition update_db4 :: "hyper \<Rightarrow> 'x evaluator \<Rightarrow> 'x expr" where
  "update_db4 h ev s X Y = tsub (smul (mu h) (s db4)) (smul (lr h) (T_grad ev s X Y b4))"

text \<open>
  A call of a function compiled by \<^verbatim>\<open>theano.function(inputs, outputs, updates)\<close>
  evaluates the outputs and every update expression on the values the shared variables
  have when the call starts, and only then assigns the new values. An error in any
  expression aborts the call.
\<close>

fun eval_updates :: "(var \<times> 'x expr) list \<Rightarrow> store \<Rightarrow> 'x list \<Rightarrow> real list list
    \<Rightarrow> (var \<times> tensor) list option" where
  "eval_updates [] s X Y = Some []"
| "eval_updates ((v, e) # us) s X Y =
     (case e s X Y of
        None \<Rightarrow> None
      | Some t \<Rightarrow>
          (case eval_updates us s X Y of
             None \<Rightarrow> None
           | Some vs \<Rightarrow> Some ((v, t) # vs)))"

fun assign_all :: "(var \<times> tensor) list \<Rightarrow> store \<Rightarrow> store" where
  "assign_all [] s = s"
| "assign_all ((v, t) # vs) s = assign_all vs (s(v := t))"

definition theano_function :: "(store \<Rightarrow> 'x list \<Rightarrow> real list list \<Rightarrow> 'o)
    \<Rightarrow> (var \<times> 'x expr) list \<Rightarrow> store \<Rightarrow> 'x list \<Rightarrow> real list list \<Rightarrow> ('o \<times> store) option" where
  "theano_function outputs updates s X Y =
     (case eval_updates updates s X Y of
        None \<Rightarrow> None
      | Some vs \<Rightarrow> Some (outputs s X Y, assign_all vs s))"

text \<open>
  \<^verbatim>\<open>
  train = theano.function(inputs=[X, Y], updates=[(W1, update_W1), ..., (db4, update_db4)])
  get_prediction = theano.function(inputs=[X, Y], outputs=[cost, prediction])
  \<close>
\<close>

definition train_updates :: "hyper \<Rightarrow> 'x evaluator \<Rightarrow> (var \<times> 'x expr) list" where
  "train_updates h ev =
     [(W1, update_W1 h ev), (b1, update_b1 h ev), (W2, update_W2 h ev), (b2, update_b2 h ev),
      (W3, update_W3 h ev), (b3, update_b3 h ev), (W4, update_W4 h ev), (b4, update_b4 h ev)]
     @ [(dW1, update_dW1 h ev), (db1, update_db1 h ev), (dW2, update_dW2 h ev),
        (db2, update_db2 h ev), (dW3, update_dW3 h ev), (db3, update_db3 h ev),
        (dW4, update_dW4 h ev), (db4, update_db4 h ev)]"

definition train :: "hyper \<Rightarrow> 'x evaluator \<Rightarrow> store \<Rightarrow> 'x list \<Rightarrow> real list list
    \<Rightarrow> (unit \<times> store) option" where
  "train h ev = theano_function (\<lambda>s X Y. ()) (train_updates h ev)"

definition get_prediction :: "'x evaluator \<Rightarrow> store \<Rightarrow> 'x list \<Rightarrow> real list list
    \<Rightarrow> ((real \<times> nat list) \<times> store) option" where
  "get_prediction ev = theano_function (\<lambda>s X Y. (cost ev s X Y, prediction ev s X)) []"

subsection \<open>The training loop of the Theano notebook\<close>

text \<open>
  \<^verbatim>\<open>sklearn.utils.shuffle(Xtrain, Ytrain_ind)\<close> applies one random permutation to both
  arrays. As for \<^verbatim>\<open>np.random.shuffle\<close>, the permutation drawn is an input of the model.
\<close>

definition sk_shuffle :: "nat list \<Rightarrow> 'a list \<Rightarrow> 'b list \<Rightarrow> 'a list \<times> 'b list" where
  "sk_shuffle p Xtr Ytr_ind = (map (\<lambda>k. Xtr ! k) p, map (\<lambda>k. Ytr_ind ! k) p)"

text \<open>
  \<^verbatim>\<open>
  for j in range(int(n_batches)):
      Xbatch = Xtrain[j*batch_sz:(j*batch_sz + batch_sz),]
      Ybatch = Ytrain_ind[j*batch_sz:(j*batch_sz + batch_sz),]
      train(Xbatch, Ybatch)
      if j % print_period == 0:
          cost_val, prediction_val = get_prediction(Xtest, Ytest_ind)
          err = error_rate(prediction_val, Ytest)
          LL.append(cost_val)
          ...print...
  \<close>
  The state of the loop is the store of the shared variables and the list \<^verbatim>\<open>LL\<close>. The
  error rate is only printed; printing is left out. \<^verbatim>\<open>j % print_period\<close> raises
  ZeroDivisionError for a zero period.
\<close>

fun batch_loop :: "hyper \<Rightarrow> 'x evaluator \<Rightarrow> 'x list \<Rightarrow> real list list \<Rightarrow> 'x list \<Rightarrow> real list list
    \<Rightarrow> int list \<Rightarrow> store \<times> real list \<Rightarrow> (store \<times> real list) option" where
  "batch_loop h ev Xte Yte_ind Xtr Ytr_ind [] st = Some st"
| "batch_loop h ev Xte Yte_ind Xtr Ytr_ind (j # js) (s, LL) =
     (case train h ev s (Xbatch (batch_sz h) Xtr j) (Ybatch (batch_sz h) Ytr_ind j) of
        None \<Rightarrow> None
      | Some (u, s1) \<Rightarrow>
          (if print_period h = 0 then None
           else if j mod print_period h = 0 then
             (case get_prediction ev s1 Xte Yte_ind of
                None \<Rightarrow> None
              | Some ((cost_val, prediction_val), s2) \<Rightarrow>
                  batch_loop h ev Xte Yte_ind Xtr Ytr_ind js (s2, LL @ [cost_val]))
           else batch_loop h ev Xte Yte_ind Xtr Ytr_ind js (s1, LL)))"

text \<open>
  \<^verbatim>\<open>
  for i in range(max_iter):
      Xtrain, Ytrain_ind = shuffle(Xtrain, Ytrain_ind)
      for j in range(int(n_batches)): ...
  \<close>
  \<open>perm i\<close> is the permutation drawn in epoch \<open>i\<close>; \<open>nb\<close> is \<^verbatim>\<open>n_batches\<close>, computed once
  before the loop.
\<close>

fun epoch_loop :: "hyper \<Rightarrow> 'x evaluator \<Rightarrow> (int \<Rightarrow> nat list) \<Rightarrow> 'x list \<Rightarrow> real list list \<Rightarrow> real
    \<Rightarrow> int list \<Rightarrow> 'x list \<times> real list list \<times> store \<times> real list
    \<Rightarrow> ('x list \<times> real list list \<times> store \<times> real list) option" where
  "epoch_loop h ev perm Xte Yte_ind nb [] st = Some st"
| "epoch_loop h ev perm Xte Yte_ind nb (i # is) (Xtr, Ytr_ind, s, LL) =
     (case sk_shuffle (perm i) Xtr Ytr_ind of
        (Xtr', Ytr_ind') \<Rightarrow>
          (case batch_loop h ev Xte Yte_ind Xtr' Ytr_ind' (py_range (py_int nb)) (s, LL) of
             None \<Rightarrow> None
           | Some (s', LL') \<Rightarrow> epoch_loop h ev perm Xte Yte_ind nb is (Xtr', Ytr_ind', s', LL')))"

definition theano_training :: "hyper \<Rightarrow> 'x evaluator \<Rightarrow> (int \<Rightarrow> nat list) \<Rightarrow> 'x list \<Rightarrow> real list list
    \<Rightarrow> 'x list \<Rightarrow> real list list \<Rightarrow> store
    \<Rightarrow> ('x list \<times> real list list \<times> store \<times> real list) option" where
  "theano_training h ev perm Xtr Ytr_ind Xte Yte_ind s0 =
     (case n_batches (int (length Xtr)) (batch_sz h) of
        None \<Rightarrow> None
      | Some nb \<Rightarrow>
          epoch_loop h ev perm Xte Yte_ind nb (py_range (max_iter h)) (Xtr, Ytr_ind, s0, []))"

text \<open>
  Consecutive calls of \<^verbatim>\<open>train\<close>, one for each minibatch of a list, with nothing else in
  between: the parameter-update steps of a run, taken alone.
\<close>

fun train_steps :: "hyper \<Rightarrow> 'x evaluator \<Rightarrow> ('x list \<times> real list list) list \<Rightarrow> store \<Rightarrow> store option" where
  "train_steps h ev [] s = Some s"
| "train_steps h ev ((X, Y) # bs) s =
     (case train h ev s X Y of
        None \<Rightarrow> None
      | Some (u, s1) \<Rightarrow> train_steps h ev bs s1)"

text \<open>The minibatches one epoch slices, in the order of the loop.\<close>

definition epoch_batches :: "int \<Rightarrow> 'a list \<Rightarrow> 'b list \<Rightarrow> int list \<Rightarrow> ('a list \<times> 'b list) list" where
  "epoch_batches B Xtr Ytr_ind js = map (\<lambda>j. (Xbatch B Xtr j, Ybatch B Ytr_ind j)) js"

section \<open>The TensorFlow notebook: the training loop\<close>

text \<open>
  The graph of the TensorFlow notebook is built on placeholders of a fixed first
  dimension: \<^verbatim>\<open>X = tf.placeholder(tf.float32, shape=(batch_sz, 28, 28, 1))\<close>, and \<^verbatim>\<open>T\<close>
  alike. The variables of the session are an abstract state \<open>'s\<close>; the three operations
  the loop runs (\<^verbatim>\<open>train_op\<close>, \<^verbatim>\<open>cost\<close>, \<^verbatim>\<open>predict_op\<close>) are opaque functions of it and of
  the values fed. Feeding a placeholder an array whose first dimension is not
  \<^verbatim>\<open>batch_sz\<close> raises an error (\<open>None\<close>).
\<close>

record ('s, 'x) graph =
  train_op :: "'s \<Rightarrow> 'x list \<Rightarrow> real list list \<Rightarrow> 's"
  cost_op :: "'s \<Rightarrow> 'x list \<Rightarrow> real list list \<Rightarrow> real"
  predict_op :: "'s \<Rightarrow> 'x list \<Rightarrow> real list"

definition fits :: "int \<Rightarrow> 'a list \<Rightarrow> bool" where
  "fits batch_size xs = (int (length xs) = batch_size)"

definition run_train_op :: "('s, 'x) graph \<Rightarrow> int \<Rightarrow> 's \<Rightarrow> 'x list \<Rightarrow> real list list \<Rightarrow> 's option" where
  "run_train_op g B s Xb Tb = (if fits B Xb \<and> fits B Tb then Some (train_op g s Xb Tb) else None)"

definition run_cost :: "('s, 'x) graph \<Rightarrow> int \<Rightarrow> 's \<Rightarrow> 'x list \<Rightarrow> real list list \<Rightarrow> real option" where
  "run_cost g B s Xb Tb = (if fits B Xb \<and> fits B Tb then Some (cost_op g s Xb Tb) else None)"

definition run_predict_op :: "('s, 'x) graph \<Rightarrow> int \<Rightarrow> 's \<Rightarrow> 'x list \<Rightarrow> real list option" where
  "run_predict_op g B s Xb = (if fits B Xb then Some (predict_op g s Xb) else None)"

text \<open>
  \<^verbatim>\<open>arr[a:b] = ys\<close> on a one-dimensional array: the slice is replaced when \<open>ys\<close> has its
  length, filled with the single entry of \<open>ys\<close> when \<open>ys\<close> has length 1 (broadcasting), and
  the assignment raises ValueError (\<open>None\<close>) otherwise.
\<close>

definition assign_slice :: "real list \<Rightarrow> int \<Rightarrow> int \<Rightarrow> real list \<Rightarrow> real list option" where
  "assign_slice arr a b ys =
     (let n = int (length arr);
          lo = nat (clamp_index n a);
          hi = max lo (nat (clamp_index n b))
      in if length ys = hi - lo then Some (take lo arr @ ys @ drop hi arr)
         else if length ys = 1 then Some (take lo arr @ replicate (hi - lo) (hd ys) @ drop hi arr)
         else None)"

text \<open>
  \<^verbatim>\<open>
  test_cost = 0
  prediction = np.zeros(len(Xtest))
  for k in range(int(len(Xtest) / batch_sz)):
      Xtestbatch = Xtest[k*batch_sz:(k*batch_sz + batch_sz),]
      Ytestbatch = Ytest_ind[k*batch_sz:(k*batch_sz + batch_sz),]
      test_cost += session.run(cost, feed_dict={X: Xtestbatch, T: Ytestbatch})
      prediction[k*batch_sz:(k*batch_sz + batch_sz)] = session.run(
          predict_op, feed_dict={X: Xtestbatch})
  err = error_rate(prediction, Ytest)
  \<close>
\<close>

fun test_loop :: "('s, 'x) graph \<Rightarrow> int \<Rightarrow> 's \<Rightarrow> 'x list \<Rightarrow> real list list \<Rightarrow> int list
    \<Rightarrow> real \<times> real list \<Rightarrow> (real \<times> real list) option" where
  "test_loop g B s Xte Yte_ind [] acc = Some acc"
| "test_loop g B s Xte Yte_ind (k # ks) (test_cost, pred) =
     (let Xtestbatch = py_slice Xte (Some (k * B)) (Some (k * B + B));
          Ytestbatch = py_slice Yte_ind (Some (k * B)) (Some (k * B + B))
      in case run_cost g B s Xtestbatch Ytestbatch of
           None \<Rightarrow> None
         | Some c \<Rightarrow>
             (case run_predict_op g B s Xtestbatch of
                None \<Rightarrow> None
              | Some p \<Rightarrow>
                  (case assign_slice pred (k * B) (k * B + B) p of
                     None \<Rightarrow> None
                   | Some pred' \<Rightarrow> test_loop g B s Xte Yte_ind ks (test_cost + c, pred'))))"

text \<open>The holdout evaluation: the cost, the prediction array and the error rate.\<close>

definition holdout_eval :: "('s, 'x) graph \<Rightarrow> int \<Rightarrow> 's \<Rightarrow> 'x list \<Rightarrow> real list list \<Rightarrow> real list
    \<Rightarrow> (real \<times> real list \<times> real) option" where
  "holdout_eval g B s Xte Yte_ind Yte =
     (if B = 0 then None
      else case test_loop g B s Xte Yte_ind
                  (py_range (py_int (real (length Xte) / real_of_int B)))
                  (0, replicate (length Xte) 0) of
             None \<Rightarrow> None
           | Some (test_cost, pred) \<Rightarrow> Some (test_cost, pred, error_rate pred Yte))"

text \<open>
  \<^verbatim>\<open>
  for j in range(int(n_batches)):
      Xbatch = Xtrain[j*batch_sz:(j*batch_sz + batch_sz),]
      Ybatch = Ytrain_ind[j*batch_sz:(j*batch_sz + batch_sz),]
      if len(Xbatch) == batch_sz:
          session.run(train_op, feed_dict={X: Xbatch, T: Ybatch})
          if j % print_period == 0:
              ...holdout evaluation...
              LL.append(test_cost)
  \<close>
\<close>

fun tf_batch_loop :: "('s, 'x) graph \<Rightarrow> int \<Rightarrow> int \<Rightarrow> 'x list \<Rightarrow> real list list \<Rightarrow> real list
    \<Rightarrow> 'x list \<Rightarrow> real list list \<Rightarrow> int list \<Rightarrow> 's \<times> real list \<Rightarrow> ('s \<times> real list) option" where
  "tf_batch_loop g B period Xte Yte_ind Yte Xtr Ytr_ind [] st = Some st"
| "tf_batch_loop g B period Xte Yte_ind Yte Xtr Ytr_ind (j # js) (s, LL) =
     (if int (length (Xbatch B Xtr j)) = B then
        (case run_train_op g B s (Xbatch B Xtr j) (Ybatch B Ytr_ind j) of
           None \<Rightarrow> None
         | Some s1 \<Rightarrow>
             (if period = 0 then None
              else if j mod period = 0 then
                (case holdout_eval g B s1 Xte Yte_ind Yte of
                   None \<Rightarrow> None
                 | Some (test_cost, pred, err) \<Rightarrow>
                     tf_batch_loop g B period Xte Yte_ind Yte Xtr Ytr_ind js (s1, LL @ [test_cost]))
              else tf_batch_loop g B period Xte Yte_ind Yte Xtr Ytr_ind js (s1, LL)))
      else tf_batch_loop g B period Xte Yte_ind Yte Xtr Ytr_ind js (s, LL))"

text \<open>
  \<^verbatim>\<open>for i in range(int(max_iter)): for j in range(int(n_batches)): ...\<close>; this notebook
  does not reshuffle.
\<close>

fun tf_epoch_loop :: "('s, 'x) graph \<Rightarrow> int \<Rightarrow> int \<Rightarrow> 'x list \<Rightarrow> real list list \<Rightarrow> real list
    \<Rightarrow> 'x list \<Rightarrow> real list list \<Rightarrow> real \<Rightarrow> int list \<Rightarrow> 's \<times> real list \<Rightarrow> ('s \<times> real list) option" where
  "tf_epoch_loop g B period Xte Yte_ind Yte Xtr Ytr_ind nb [] st = Some st"
| "tf_epoch_loop g B period Xte Yte_ind Yte Xtr Ytr_ind nb (i # is) st =
     (case tf_batch_loop g B period Xte Yte_ind Yte Xtr Ytr_ind (py_range (py_int nb)) st of
        None \<Rightarrow> None
      | Some st' \<Rightarrow> tf_epoch_loop g B period Xte Yte_ind Yte Xtr Ytr_ind nb is st')"

definition tf_training :: "('s, 'x) graph \<Rightarrow> int \<Rightarrow> int \<Rightarrow> int \<Rightarrow> 'x list \<Rightarrow> real list list
    \<Rightarrow> 'x list \<Rightarrow> real list list \<Rightarrow> real list \<Rightarrow> 's \<Rightarrow> ('s \<times> real list) option" where
  "tf_training g iters B period Xtr Ytr_ind Xte Yte_ind Yte s0 =
     (case n_batches (int (length Xtr)) B of
        None \<Rightarrow> None
      | Some nb \<Rightarrow>
          tf_epoch_loop g B period Xte Yte_ind Yte Xtr Ytr_ind nb (py_range iters) (s0, []))"

section \<open>Properties of the helper cells\<close>

subsection \<open>The train/holdout split\<close>

lemma py_slice_upto_neg:
  "0 < k \<Longrightarrow> py_slice xs None (Some (- int k)) = take (length xs - k) xs"
  by (auto simp: py_slice_def clamp_index_def Let_def max_def nat_diff_distrib')

lemma py_slice_from_neg:
  "0 < k \<Longrightarrow> py_slice xs (Some (- int k)) None = drop (length xs - k) xs"
  by (auto simp: py_slice_def clamp_index_def Let_def max_def nat_diff_distrib')

lemma Xtrain_take: "Xtrain X = take (length X - 1000) X"
  using py_slice_upto_neg [of 1000 X] by (simp add: Xtrain_def)

lemma Xtest_drop: "Xtest X = drop (length X - 1000) X"
  using py_slice_from_neg [of 1000 X] by (simp add: Xtest_def)

lemma Ytrain_take: "Ytrain Y = take (length Y - 1000) Y"
  using py_slice_upto_neg [of 1000 Y] by (simp add: Ytrain_def)

lemma Ytest_drop: "Ytest Y = drop (length Y - 1000) Y"
  using py_slice_from_neg [of 1000 Y] by (simp add: Ytest_def)

text \<open>
  Claim C4. For a dataset of more than 1000 samples, the split keeps the first
  \<open>N - 1000\<close> rows for training and the last 1000 rows as holdout, for the features and for
  the labels alike. The two parts together are the whole array, the row indices of the two
  parts are disjoint, and 5000 samples give 4000 training rows and 1000 holdout rows.
\<close>

theorem split_train_holdout:
  assumes "1000 < length X" and "length Y = length X"
  shows "Xtrain X = take (length X - 1000) X \<and> Xtest X = drop (length X - 1000) X
       \<and> Ytrain Y = take (length X - 1000) Y \<and> Ytest Y = drop (length X - 1000) Y
       \<and> length (Xtrain X) = length X - 1000 \<and> length (Xtest X) = 1000
       \<and> length (Ytrain Y) = length X - 1000 \<and> length (Ytest Y) = 1000
       \<and> Xtrain X @ Xtest X = X \<and> Ytrain Y @ Ytest Y = Y
       \<and> set (Xtrain [0..<length X]) = {0..<length X - 1000}
       \<and> set (Xtest [0..<length X]) = {length X - 1000..<length X}
       \<and> set (Xtrain [0..<length X]) \<inter> set (Xtest [0..<length X]) = {}
       \<and> (length X = 5000 \<longrightarrow> length (Xtrain X) = 4000 \<and> length (Xtest X) = 1000)"
  using assms
  by (auto simp: Xtrain_take Xtest_drop Ytrain_take Ytest_drop take_upt drop_upt)

theorem split_train_holdout_witness:
  "length (Xtrain (replicate 5000 (0::nat))) = 4000 \<and> length (Xtest (replicate 5000 (0::nat))) = 1000
   \<and> set (Xtrain [0..<5000]) \<inter> set (Xtest [0..<5000]) = {}"
  using split_train_holdout [of "replicate 5000 (0::nat)" "replicate 5000 (0::nat)"]
  by simp

subsection \<open>The indicator matrix\<close>

lemma sum_list_update_real:
  "k < length xs \<Longrightarrow> sum_list (xs[k := v]) = sum_list xs - xs ! k + (v::real)"
  by (induction xs arbitrary: k) (auto split: nat.splits)

lemma setitem2_in_range:
  assumes "i < length ind" and "0 \<le> k" and "k < int (length (ind ! i))"
  shows "setitem2 ind i k v = Some (ind[i := (ind ! i)[nat k := v]])"
  using assms by (simp add: setitem2_def Let_def)

lemma y2indicator_loop_rows:
  assumes "distinct js" and "\<forall>i\<in>set js. i < length ind \<and> 0 \<le> y ! i \<and> y ! i < int (length (ind ! i))"
  shows "\<exists>ind'. y2indicator_loop y js ind = Some ind' \<and> length ind' = length ind
           \<and> (\<forall>i<length ind. ind' ! i = (if i \<in> set js then (ind ! i)[nat (y ! i) := 1] else ind ! i))"
  using assms
proof (induction js arbitrary: ind)
  case Nil
  then show ?case by simp
next
  case (Cons j js)
  let ?ind1 = "ind[j := (ind ! j)[nat (y ! j) := 1]]"
  from Cons.prems have j: "j < length ind" "0 \<le> y ! j" "y ! j < int (length (ind ! j))"
    and nj: "j \<notin> set js" and d: "distinct js"
    by auto
  have step: "setitem2 ind j (y ! j) 1 = Some ?ind1"
    using j by (rule setitem2_in_range)
  have pre: "\<forall>i\<in>set js. i < length ?ind1 \<and> 0 \<le> y ! i \<and> y ! i < int (length (?ind1 ! i))"
    using Cons.prems nj by (auto simp: nth_list_update)
  from Cons.IH [OF d pre] obtain ind' where
    r: "y2indicator_loop y js ?ind1 = Some ind'" "length ind' = length ?ind1"
       "\<forall>i<length ?ind1. ind' ! i = (if i \<in> set js then (?ind1 ! i)[nat (y ! i) := 1] else ?ind1 ! i)"
    by blast
  have "\<forall>i<length ind. ind' ! i = (if i \<in> set (j # js) then (ind ! i)[nat (y ! i) := 1] else ind ! i)"
    using r(3) nj j(1) by (auto simp: nth_list_update)
  with r(1,2) step show ?case by simp
qed

lemma those_map_Some:
  "(\<And>x. x \<in> set xs \<Longrightarrow> f x = Some (g x)) \<Longrightarrow> those (map f xs) = Some (map g xs)"
  by (induction xs) auto

lemma astype_int32_label:
  assumes "x \<in> \<int>" "0 \<le> x" "x < 10"
  shows "astype_int32 x = Some \<lfloor>x\<rfloor>" and "0 \<le> \<lfloor>x\<rfloor>" and "\<lfloor>x\<rfloor> < 10"
proof -
  show "0 \<le> \<lfloor>x\<rfloor>" using assms by simp
  show "\<lfloor>x\<rfloor> < 10" using assms by (simp add: floor_less_iff)
  then show "astype_int32 x = Some \<lfloor>x\<rfloor>"
    using assms \<open>0 \<le> \<lfloor>x\<rfloor>\<close> by (simp add: astype_int32_def py_int_def Let_def)
qed

text \<open>
  Claim C5. For a label vector whose entries are integers in \<open>[0, 10)\<close>, \<^verbatim>\<open>y2indicator\<close>
  returns a matrix with one row of ten entries per label; row \<open>i\<close> holds 1 in column
  \<open>y[i]\<close> and 0 elsewhere, so it sums to 1. For \<open>y = [0, 3, 9]\<close> the three rows have their
  only 1 at the columns 0, 3 and 9.
\<close>

theorem y2indicator_one_hot:
  assumes "\<forall>x\<in>set y. x \<in> \<int> \<and> 0 \<le> x \<and> x < 10"
  shows "(\<exists>ind. y2indicator y = Some ind \<and> length ind = length y
           \<and> (\<forall>i<length y. length (ind ! i) = 10
                 \<and> (\<forall>k<10. ind ! i ! k = (if int k = \<lfloor>y ! i\<rfloor> then 1 else 0))
                 \<and> sum_list (ind ! i) = 1))
       \<and> y2indicator [0, 3, 9] =
           Some [[1, 0, 0, 0, 0, 0, 0, 0, 0, 0],
                 [0, 0, 0, 1, 0, 0, 0, 0, 0, 0],
                 [0, 0, 0, 0, 0, 0, 0, 0, 0, 1]]"
proof
  let ?N = "length y"
  let ?y' = "map floor y"
  let ?z = "np_zeros2 ?N 10"
  have cast: "those (map astype_int32 y) = Some ?y'"
    using assms by (intro those_map_Some) (simp add: astype_int32_label(1))
  have lab: "\<forall>i<?N. 0 \<le> ?y' ! i \<and> ?y' ! i < 10"
    using assms by (auto simp: astype_int32_label(2,3))
  have pre: "\<forall>i\<in>set [0..<?N]. i < length ?z \<and> 0 \<le> ?y' ! i \<and> ?y' ! i < int (length (?z ! i))"
    using lab by (simp add: np_zeros2_def)
  from y2indicator_loop_rows [OF _ pre] obtain ind where
    r: "y2indicator_loop ?y' [0..<?N] ?z = Some ind" "length ind = length ?z"
       "\<forall>i<length ?z. ind ! i = (if i \<in> set [0..<?N] then (?z ! i)[nat (?y' ! i) := 1] else ?z ! i)"
    by auto
  have rows: "\<forall>i<?N. ind ! i = (replicate 10 0)[nat \<lfloor>y ! i\<rfloor> := 1]"
    using r(3) by (simp add: np_zeros2_def)
  have res: "y2indicator y = Some ind"
    using cast r(1) by (simp add: y2indicator_def Let_def)
  have "length (ind ! i) = 10
        \<and> (\<forall>k<10. ind ! i ! k = (if int k = \<lfloor>y ! i\<rfloor> then 1 else 0))
        \<and> sum_list (ind ! i) = 1" if i: "i < ?N" for i
  proof -
    have b: "0 \<le> \<lfloor>y ! i\<rfloor>" "\<lfloor>y ! i\<rfloor> < 10" using lab i by auto
    then have n: "nat \<lfloor>y ! i\<rfloor> < 10" by arith
    have e: "ind ! i = (replicate 10 0)[nat \<lfloor>y ! i\<rfloor> := 1]" using rows i by simp
    have "\<forall>k<10. ind ! i ! k = (if int k = \<lfloor>y ! i\<rfloor> then 1 else 0)"
      using b by (auto simp: e nth_list_update)
    moreover have "sum_list (ind ! i) = 1"
      using n by (simp add: e sum_list_update_real sum_list_replicate)
    ultimately show ?thesis by (simp add: e)
  qed
  with res r(2) show "\<exists>ind. y2indicator y = Some ind \<and> length ind = length y
           \<and> (\<forall>i<length y. length (ind ! i) = 10
                 \<and> (\<forall>k<10. ind ! i ! k = (if int k = \<lfloor>y ! i\<rfloor> then 1 else 0))
                 \<and> sum_list (ind ! i) = 1)"
    by (simp add: np_zeros2_def)
next
  show "y2indicator [0, 3, 9] =
           Some [[1, 0, 0, 0, 0, 0, 0, 0, 0, 0],
                 [0, 0, 0, 1, 0, 0, 0, 0, 0, 0],
                 [0, 0, 0, 0, 0, 0, 0, 0, 0, 1]]"
    by (simp add: y2indicator_def astype_int32_def py_int_def Let_def np_zeros2_def
        setitem2_def upt_rec [of 0] upt_rec [of 1] upt_rec [of 2] numeral_3_eq_3 eval_nat_numeral)
qed

theorem y2indicator_one_hot_witness:
  "\<exists>ind. y2indicator [2, 7] = Some ind \<and> length ind = 2
     \<and> length (ind ! 1) = 10 \<and> ind ! 1 ! 7 = 1 \<and> ind ! 1 ! 2 = 0 \<and> sum_list (ind ! 0) = 1"
proof -
  have h: "\<forall>x\<in>set [2, 7 :: real]. x \<in> \<int> \<and> 0 \<le> x \<and> x < 10" by simp
  from y2indicator_one_hot [OF h] obtain ind where
    r: "y2indicator [2, 7] = Some ind" "length ind = length [2, 7 :: real]"
       "\<forall>i<length [2, 7 :: real]. length (ind ! i) = 10
                 \<and> (\<forall>k<10. ind ! i ! k = (if int k = \<lfloor>[2, 7 :: real] ! i\<rfloor> then 1 else 0))
                 \<and> sum_list (ind ! i) = 1"
    by blast
  from r(3) have "length (ind ! 1) = 10 \<and> (\<forall>k<10. ind ! 1 ! k = (if int k = \<lfloor>[2, 7 :: real] ! 1\<rfloor> then 1 else 0))"
    and "sum_list (ind ! 0) = 1" by auto
  then have "length (ind ! 1) = 10" "ind ! 1 ! 7 = 1" "ind ! 1 ! 2 = 0" "sum_list (ind ! 0) = 1"
    by auto
  with r(1,2) show ?thesis by simp
qed

subsection \<open>Normalisation\<close>










section \<open>Properties of the Theano notebook\<close>

subsection \<open>Tensors and compiled functions\<close>



lemma shape_smul [simp]: "shape (smul c t) = shape t"
  by (simp add: smul_def)

lemma eval_updates_member:
  assumes "eval_updates us s X Y = Some vs"
  shows "map fst vs = map fst us"
    and "(v, e) \<in> set us \<Longrightarrow> \<exists>t. e s X Y = Some t \<and> (v, t) \<in> set vs"
  using assms
  by (induction us arbitrary: vs) (auto split: option.splits)

lemma assign_all_other: "v \<notin> fst ` set vs \<Longrightarrow> assign_all vs s v = s v"
  by (induction vs s rule: assign_all.induct) auto

lemma assign_all_member:
  "distinct (map fst vs) \<Longrightarrow> (v, t) \<in> set vs \<Longrightarrow> assign_all vs s v = t"
proof (induction vs s rule: assign_all.induct)
  case (1 s)
  then show ?case by simp
next
  case (2 w u vs s)
  show ?case
  proof (cases "(v, t) = (w, u)")
    case True
    with 2 show ?thesis by (simp add: assign_all_other)
  next
    case False
    with 2 have "distinct (map fst vs)" and "(v, t) \<in> set vs" by auto
    then have "assign_all vs (s(w := u)) v = t" by (rule "2.IH")
    then show ?thesis by (simp only: assign_all.simps)
  qed
qed

lemma theano_function_result:
  assumes "theano_function out us s X Y = Some (r, s')" and "distinct (map fst us)"
  shows "r = out s X Y"
    and "(v, e) \<in> set us \<Longrightarrow> e s X Y = Some (s' v)"
    and "v \<notin> fst ` set us \<Longrightarrow> s' v = s v"
proof -
  from assms(1) obtain vs where vs: "eval_updates us s X Y = Some vs"
    and r: "r = out s X Y" and s': "s' = assign_all vs s"
    by (auto simp: theano_function_def split: option.splits)
  show "r = out s X Y" by (rule r)
  have fst: "map fst vs = map fst us" using eval_updates_member(1) [OF vs] .
  show "e s X Y = Some (s' v)" if "(v, e) \<in> set us"
  proof -
    from eval_updates_member(2) [OF vs that] obtain t where "e s X Y = Some t" "(v, t) \<in> set vs"
      by blast
    then show ?thesis using assign_all_member [of vs v t s] assms(2) fst by (simp add: s')
  qed
  show "s' v = s v" if "v \<notin> fst ` set us"
  proof -
    have "fst ` set vs = fst ` set us" using fst by (metis set_map)
    then show ?thesis using that by (simp add: s' assign_all_other)
  qed
qed

lemma distinct_train_updates: "distinct (map fst (train_updates h ev))"
  by (simp add: train_updates_def)

lemma train_param:
  assumes "train h ev s X Y = Some (u, s')"
  shows "update_W1 h ev s X Y = Some (s' W1)" "update_dW1 h ev s X Y = Some (s' dW1)"
    "update_b1 h ev s X Y = Some (s' b1)" "update_db1 h ev s X Y = Some (s' db1)"
    "update_W2 h ev s X Y = Some (s' W2)" "update_dW2 h ev s X Y = Some (s' dW2)"
    "update_b2 h ev s X Y = Some (s' b2)" "update_db2 h ev s X Y = Some (s' db2)"
    "update_W3 h ev s X Y = Some (s' W3)" "update_dW3 h ev s X Y = Some (s' dW3)"
    "update_b3 h ev s X Y = Some (s' b3)" "update_db3 h ev s X Y = Some (s' db3)"
    "update_W4 h ev s X Y = Some (s' W4)" "update_dW4 h ev s X Y = Some (s' dW4)"
    "update_b4 h ev s X Y = Some (s' b4)" "update_db4 h ev s X Y = Some (s' db4)"
  using assms unfolding train_def
  by (rule theano_function_result(2) [OF _ distinct_train_updates], simp add: train_updates_def)+

lemma eval_updates_total:
  "\<forall>(v, e)\<in>set us. e s X Y \<noteq> None \<Longrightarrow> eval_updates us s X Y \<noteq> None"
  by (induction us) (auto split: option.splits)

lemma theano_function_total:
  assumes "\<And>v e. (v, e) \<in> set us \<Longrightarrow> e s X Y \<noteq> None"
  shows "theano_function out us s X Y \<noteq> None"
proof -
  have "\<forall>(v, e)\<in>set us. e s X Y \<noteq> None" using assms by blast
  from eval_updates_total [OF this] show ?thesis
    by (auto simp: theano_function_def split: option.splits)
qed

lemma zip_params_accumulators:
  "zip params accumulators =
     [(W1, dW1), (b1, db1), (W2, dW2), (b2, db2), (W3, dW3), (b3, db3), (W4, dW4), (b4, db4)]"
  by (simp add: params_def accumulators_def)

lemma train_total:
  assumes "\<forall>(p, dp)\<in>set (zip params accumulators).
             shape (s dp) = shape (s p) \<and> shape (T_grad ev s X Y p) = shape (s p)"
  shows "train h ev s X Y \<noteq> None"
  unfolding train_def
proof (rule theano_function_total)
  fix v e
  assume "(v, e) \<in> set (train_updates h ev)"
  then show "e s X Y \<noteq> None"
    using assms unfolding zip_params_accumulators train_updates_def
    by (auto simp: update_W1_def update_b1_def update_W2_def update_b2_def
        update_W3_def update_b3_def update_W4_def update_b4_def
        update_dW1_def update_db1_def update_dW2_def update_db2_def
        update_dW3_def update_db3_def update_dW4_def update_db4_def
        tadd_def tsub_def)
qed

lemma train_pairs:
  assumes t: "train h ev s X Y = Some (u, s')" and m: "(p, dp) \<in> set (zip params accumulators)"
  shows "(case tadd (s p) (smul (mu h) (s dp)) of None \<Rightarrow> None
          | Some t \<Rightarrow> tsub t (smul (lr h) (T_grad ev s X Y p))) = Some (s' p)"
    and "tsub (smul (mu h) (s dp)) (smul (lr h) (T_grad ev s X Y p)) = Some (s' dp)"
proof -
  note p = train_param [OF t]
  from m have c: "(p, dp) = (W1, dW1) \<or> (p, dp) = (b1, db1) \<or> (p, dp) = (W2, dW2) \<or> (p, dp) = (b2, db2)
      \<or> (p, dp) = (W3, dW3) \<or> (p, dp) = (b3, db3) \<or> (p, dp) = (W4, dW4) \<or> (p, dp) = (b4, db4)"
    unfolding zip_params_accumulators by simp
  from c show "(case tadd (s p) (smul (mu h) (s dp)) of None \<Rightarrow> None
          | Some t \<Rightarrow> tsub t (smul (lr h) (T_grad ev s X Y p))) = Some (s' p)"
    using p(1,3,5,7,9,11,13,15)
    unfolding update_W1_def update_b1_def update_W2_def update_b2_def
        update_W3_def update_b3_def update_W4_def update_b4_def
    by - (elim disjE; clarify; assumption)
  from c show "tsub (smul (mu h) (s dp)) (smul (lr h) (T_grad ev s X Y p)) = Some (s' dp)"
    using p(2,4,6,8,10,12,14,16)
    unfolding update_dW1_def update_db1_def update_dW2_def update_db2_def
        update_dW3_def update_db3_def update_dW4_def update_db4_def
    by - (elim disjE; clarify; assumption)
qed

lemma Some_unit_pair: "r \<noteq> None \<Longrightarrow> \<exists>s'. r = Some ((), s')"
  by (cases r) auto

lemma example_grad_shape:
  "\<forall>s1 X Y. \<forall>p\<in>set params.
     shape (T_grad \<lparr>pY_of = pY, cost_of = c,
                     grad_of = (\<lambda>ps X Y w. ps ! length (takeWhile (\<lambda>v. v \<noteq> w) params))\<rparr> s1 X Y p)
       = shape (s1 p)"
  by (simp add: T_grad_def params_def)

subsection \<open>The parameter-update step\<close>



lemma tadd_zero_momentum:
  assumes "wf_tensor a" and "wf_tensor v" and "tadd a (smul 0 v) = Some t"
  shows "t = a"
proof -
  from assms(3) have sh: "shape v = shape a"
    and t: "t = \<lparr>shape = shape a, vals = map2 (+) (vals a) (vals (smul 0 v))\<rparr>"
    by (auto simp: tadd_def split: if_splits)
  from assms(1,2) sh have len: "length (vals v) = length (vals a)"
    by (simp add: wf_tensor_def)
  have "map2 (+) xs (map (\<lambda>x. 0 * x) ys) = xs" if "length ys = length xs" for xs ys :: "real list"
    using that by (induction ys xs rule: list_induct2) simp_all
  from this [OF len] show ?thesis by (simp add: t smul_def)
qed

lemma zero_momentum_pattern:
  assumes "wf_tensor a" and "wf_tensor v"
    and "(case tadd a (smul 0 v) of None \<Rightarrow> None | Some t \<Rightarrow> tsub t c) = Some a'"
  shows "tsub a c = Some a'"
proof -
  from assms(3) obtain t where t: "tadd a (smul 0 v) = Some t" and r: "tsub t c = Some a'"
    by (auto split: option.splits)
  from tadd_zero_momentum [OF assms(1,2) t] r show ?thesis by simp
qed

text \<open>
  Claim C7. With the momentum coefficient \<open>mu = 0\<close>, a call of \<^verbatim>\<open>train\<close> sets every
  parameter to \<open>theta_old - lr * g\<close>: the previous value of the accumulator contributes
  nothing, so the update adds the new accumulator value and not the old one.
\<close>

theorem zero_momentum_step:
  assumes "mu h = 0" and "train h ev s X Y = Some (u, s')" and "\<forall>v. wf_tensor (s v)"
  shows "\<forall>(p, dp)\<in>set (zip params accumulators).
           tsub (s p) (smul (lr h) (T_grad ev s X Y p)) = Some (s' p)"
proof (clarify)
  fix p dp
  assume m: "(p, dp) \<in> set (zip params accumulators)"
  from train_pairs(1) [OF assms(2) m] assms(1)
  have "(case tadd (s p) (smul 0 (s dp)) of None \<Rightarrow> None
          | Some t \<Rightarrow> tsub t (smul (lr h) (T_grad ev s X Y p))) = Some (s' p)"
    by simp
  with assms(3) show "tsub (s p) (smul (lr h) (T_grad ev s X Y p)) = Some (s' p)"
    by (intro zero_momentum_pattern [of "s p" "s dp"]) simp_all
qed

theorem zero_momentum_step_witness:
  "\<exists>s'. train \<lparr>max_iter = 1, print_period = 1, lr = 1 / 2, mu = 0, batch_sz = 2\<rparr>
           \<lparr>pY_of = (\<lambda>ps X. []), cost_of = (\<lambda>ps X Y. 0),
              grad_of = (\<lambda>ps X Y w. ps ! length (takeWhile (\<lambda>v. v \<noteq> w) params))\<rparr>
           ((initial_store (\<lambda>v. \<lparr>shape = [2], vals = [4, 8]\<rparr>))(dW1 := \<lparr>shape = [2], vals = [2, 6]\<rparr>))
           ([] :: nat list) [] = Some ((), s')
      \<and> s' W1 = \<lparr>shape = [2], vals = [2, 4]\<rparr>"
proof -
  let ?h = "\<lparr>max_iter = 1, print_period = 1, lr = 1 / 2, mu = 0, batch_sz = 2\<rparr>"
  let ?ev = "\<lparr>pY_of = (\<lambda>ps X. []), cost_of = (\<lambda>ps X Y. 0),
              grad_of = (\<lambda>ps X Y w. ps ! length (takeWhile (\<lambda>v. v \<noteq> w) params))\<rparr> :: nat evaluator"
  let ?s = "(initial_store (\<lambda>v. \<lparr>shape = [2], vals = [4, 8]\<rparr>))(dW1 := \<lparr>shape = [2], vals = [2, 6]\<rparr>)"
  have c: "\<forall>(p, dp)\<in>set (zip params accumulators).
      shape (?s dp) = shape (?s p) \<and> shape (T_grad ?ev ?s [] [] p) = shape (?s p)"
    unfolding zip_params_accumulators
    by (simp add: initial_store_def np_zeros_def T_grad_def params_def)
  from Some_unit_pair [OF train_total [OF c, of ?h]]
  obtain s' where t: "train ?h ?ev ?s [] [] = Some ((), s')" by blast
  have wf: "\<forall>v. wf_tensor (?s v)"
    by (auto simp: wf_tensor_def initial_store_def np_zeros_def split: var.splits)
  have "\<forall>(p, dp)\<in>set (zip params accumulators).
           tsub (?s p) (smul (lr ?h) (T_grad ?ev ?s [] [] p)) = Some (s' p)"
    by (rule zero_momentum_step [OF _ t wf]) simp
  then have "tsub (?s W1) (smul (lr ?h) (T_grad ?ev ?s [] [] W1)) = Some (s' W1)"
    by (simp add: zip_params_accumulators)
  then have "s' W1 = \<lparr>shape = [2], vals = [2, 4]\<rparr>"
    by (simp add: tsub_def smul_def T_grad_def params_def initial_store_def)
  with t show ?thesis by blast
qed

subsection \<open>Shapes\<close>

lemma train_shape:
  assumes "train h ev s X Y = Some (u, s')"
  shows "shape (s' v) = shape (s v)"
proof -
  note p = train_param [OF assms]
  have par: "\<And>a m w l g t. (case tadd a (smul m w) of None \<Rightarrow> None | Some t \<Rightarrow> tsub t (smul l g)) = Some t
      \<Longrightarrow> shape t = shape a"
    by (auto simp: tadd_def tsub_def split: if_splits)
  have acc: "\<And>m w l g t. tsub (smul m w) (smul l g) = Some t \<Longrightarrow> shape t = shape w"
    by (auto simp: tsub_def split: if_splits)
  show ?thesis
  proof (cases v)
    case W1 then show ?thesis using par [OF p(1) [unfolded update_W1_def]] by simp
  next
    case b1 then show ?thesis using par [OF p(3) [unfolded update_b1_def]] by simp
  next
    case W2 then show ?thesis using par [OF p(5) [unfolded update_W2_def]] by simp
  next
    case b2 then show ?thesis using par [OF p(7) [unfolded update_b2_def]] by simp
  next
    case W3 then show ?thesis using par [OF p(9) [unfolded update_W3_def]] by simp
  next
    case b3 then show ?thesis using par [OF p(11) [unfolded update_b3_def]] by simp
  next
    case W4 then show ?thesis using par [OF p(13) [unfolded update_W4_def]] by simp
  next
    case b4 then show ?thesis using par [OF p(15) [unfolded update_b4_def]] by simp
  next
    case dW1 then show ?thesis using acc [OF p(2) [unfolded update_dW1_def]] by simp
  next
    case db1 then show ?thesis using acc [OF p(4) [unfolded update_db1_def]] by simp
  next
    case dW2 then show ?thesis using acc [OF p(6) [unfolded update_dW2_def]] by simp
  next
    case db2 then show ?thesis using acc [OF p(8) [unfolded update_db2_def]] by simp
  next
    case dW3 then show ?thesis using acc [OF p(10) [unfolded update_dW3_def]] by simp
  next
    case db3 then show ?thesis using acc [OF p(12) [unfolded update_db3_def]] by simp
  next
    case dW4 then show ?thesis using acc [OF p(14) [unfolded update_dW4_def]] by simp
  next
    case db4 then show ?thesis using acc [OF p(16) [unfolded update_db4_def]] by simp
  qed
qed

lemma train_steps_shape:
  "train_steps h ev bs s = Some s' \<Longrightarrow> shape (s' v) = shape (s v)"
proof (induction bs arbitrary: s)
  case Nil
  then show ?case by simp
next
  case (Cons b bs)
  obtain X Y where b: "b = (X, Y)" by (cases b)
  from Cons.prems obtain u s1 where t: "train h ev s X Y = Some (u, s1)"
    and r: "train_steps h ev bs s1 = Some s'"
    by (auto simp: b split: option.splits)
  from Cons.IH [OF r] train_shape [OF t] show ?case by simp
qed

lemma get_prediction_eq:
  "get_prediction ev s X Y = Some ((cost ev s X Y, prediction ev s X), s)"
  by (simp add: get_prediction_def theano_function_def)

lemma batch_loop_train_steps:
  "batch_loop h ev Xte Yte_ind Xtr Ytr_ind js (s, LL) = Some (s', LL')
     \<Longrightarrow> train_steps h ev (epoch_batches (batch_sz h) Xtr Ytr_ind js) s = Some s'"
proof (induction js arbitrary: s LL)
  case Nil
  then show ?case by (simp add: epoch_batches_def)
next
  case (Cons j js)
  from Cons.prems obtain u s1 where
    t: "train h ev s (Xbatch (batch_sz h) Xtr j) (Ybatch (batch_sz h) Ytr_ind j) = Some (u, s1)"
    by (auto split: option.splits)
  from Cons.prems t obtain LL1 where
    "batch_loop h ev Xte Yte_ind Xtr Ytr_ind js (s1, LL1) = Some (s', LL')"
    by (auto simp: get_prediction_eq split: if_splits)
  from Cons.IH [OF this] t show ?case by (simp add: epoch_batches_def)
qed

lemma epoch_loop_shape:
  "epoch_loop h ev perm Xte Yte_ind nb is (Xtr, Ytr_ind, s, LL) = Some (Xtr', Ytr_ind', s', LL')
     \<Longrightarrow> shape (s' v) = shape (s v)"
proof (induction "is" arbitrary: Xtr Ytr_ind s LL)
  case Nil
  then show ?case by simp
next
  case (Cons i "is")
  obtain Xs Ys where sh: "sk_shuffle (perm i) Xtr Ytr_ind = (Xs, Ys)"
    by (cases "sk_shuffle (perm i) Xtr Ytr_ind")
  from Cons.prems sh obtain s1 LL1 where
    b: "batch_loop h ev Xte Yte_ind Xs Ys (py_range (py_int nb)) (s, LL) = Some (s1, LL1)"
    and r: "epoch_loop h ev perm Xte Yte_ind nb is (Xs, Ys, s1, LL1) = Some (Xtr', Ytr_ind', s', LL')"
    by (auto split: option.splits)
  from train_steps_shape [OF batch_loop_train_steps [OF b]] Cons.IH [OF r]
  show ?case by simp
qed

lemma train_steps_total:
  assumes "\<forall>(p, dp)\<in>set (zip params accumulators). shape (s dp) = shape (s p)"
    and "\<forall>s1 X Y. \<forall>p\<in>set params. shape (T_grad ev s1 X Y p) = shape (s1 p)"
  shows "train_steps h ev bs s \<noteq> None"
  using assms(1)
proof (induction bs arbitrary: s)
  case Nil
  then show ?case by simp
next
  case (Cons b bs)
  obtain X Y where b: "b = (X, Y)" by (cases b)
  have "\<forall>(p, dp)\<in>set (zip params accumulators).
            shape (s dp) = shape (s p) \<and> shape (T_grad ev s X Y p) = shape (s p)"
    using Cons.prems assms(2) by (auto dest: set_zip_leftD)
  from train_total [OF this, of h] obtain u s1 where t: "train h ev s X Y = Some (u, s1)"
    by (cases "train h ev s X Y") auto
  have "\<forall>(p, dp)\<in>set (zip params accumulators). shape (s1 dp) = shape (s1 p)"
    using Cons.prems by (simp add: train_shape [OF t])
  from Cons.IH [OF this] t show ?case by (simp add: b)
qed

lemma batch_loop_store:
  assumes "print_period h \<noteq> 0"
  shows "map_option fst (batch_loop h ev Xte Yte_ind Xtr Ytr_ind js (s, LL))
           = train_steps h ev (epoch_batches (batch_sz h) Xtr Ytr_ind js) s"
proof (induction js arbitrary: s LL)
  case Nil
  then show ?case by (simp add: epoch_batches_def)
next
  case (Cons j js)
  have e: "epoch_batches (batch_sz h) Xtr Ytr_ind (j # js)
      = (Xbatch (batch_sz h) Xtr j, Ybatch (batch_sz h) Ytr_ind j) # epoch_batches (batch_sz h) Xtr Ytr_ind js"
    by (simp add: epoch_batches_def)
  show ?case
  proof (cases "train h ev s (Xbatch (batch_sz h) Xtr j) (Ybatch (batch_sz h) Ytr_ind j)")
    case None
    then show ?thesis by (simp add: e)
  next
    case (Some r)
    obtain u s1 where r: "r = (u, s1)" by (cases r)
    show ?thesis
      using assms Cons.IH [of s1] by (simp add: e Some r get_prediction_eq)
  qed
qed

lemma epoch_loop_total:
  assumes "print_period h \<noteq> 0"
    and "\<forall>(p, dp)\<in>set (zip params accumulators). shape (s dp) = shape (s p)"
    and "\<forall>s1 X Y. \<forall>p\<in>set params. shape (T_grad ev s1 X Y p) = shape (s1 p)"
  shows "epoch_loop h ev perm Xte Yte_ind nb is (Xtr, Ytr_ind, s, LL) \<noteq> None"
  using assms(2)
proof (induction "is" arbitrary: Xtr Ytr_ind s LL)
  case Nil
  then show ?case by simp
next
  case (Cons i "is")
  obtain Xs Ys where sh: "sk_shuffle (perm i) Xtr Ytr_ind = (Xs, Ys)"
    by (cases "sk_shuffle (perm i) Xtr Ytr_ind")
  let ?bs = "epoch_batches (batch_sz h) Xs Ys (py_range (py_int nb))"
  from train_steps_total [OF Cons.prems assms(3), of h ?bs]
  obtain s1 where t: "train_steps h ev ?bs s = Some s1" by auto
  with batch_loop_store [OF assms(1), of ev Xte Yte_ind Xs Ys "py_range (py_int nb)" s LL]
  obtain LL1 where b: "batch_loop h ev Xte Yte_ind Xs Ys (py_range (py_int nb)) (s, LL) = Some (s1, LL1)"
    by (cases "batch_loop h ev Xte Yte_ind Xs Ys (py_range (py_int nb)) (s, LL)") auto
  have "\<forall>(p, dp)\<in>set (zip params accumulators). shape (s1 dp) = shape (s1 p)"
    using Cons.prems by (simp add: train_steps_shape [OF t])
  from Cons.IH [OF this] show ?case by (simp add: sh b)
qed

text \<open>
  Claim C8. After any number of calls of \<^verbatim>\<open>train\<close>, and after a whole run of the training
  loop, every parameter and every accumulator has the shape it had before the first call.
  The accumulators are created once, before training, by \<^verbatim>\<open>np.zeros\<close> on the shape of
  the initial value of their parameter: same shape, all entries 0.
\<close>

theorem shapes_fixed:
  "(train_steps h ev bs s = Some s1 \<longrightarrow> (\<forall>v. shape (s1 v) = shape (s v)))
   \<and> (theano_training h ev perm Xtr Ytr_ind Xte Yte_ind s = Some (Xtr', Ytr_ind', s2, LL)
        \<longrightarrow> (\<forall>v. shape (s2 v) = shape (s v)))
   \<and> (\<forall>(p, dp)\<in>set (zip params accumulators).
         initial_store init p = init p
       \<and> initial_store init dp = np_zeros (shape (init p))
       \<and> shape (initial_store init dp) = shape (initial_store init p)
       \<and> vals (initial_store init dp) = replicate (prod_list (shape (init p))) 0)"
proof (intro conjI impI allI)
  fix v
  assume "train_steps h ev bs s = Some s1"
  then show "shape (s1 v) = shape (s v)" by (rule train_steps_shape)
next
  fix v
  assume "theano_training h ev perm Xtr Ytr_ind Xte Yte_ind s = Some (Xtr', Ytr_ind', s2, LL)"
  then show "shape (s2 v) = shape (s v)"
    by (auto simp: theano_training_def split: option.splits dest: epoch_loop_shape)
next
  show "\<forall>(p, dp)\<in>set (zip params accumulators).
         initial_store init p = init p
       \<and> initial_store init dp = np_zeros (shape (init p))
       \<and> shape (initial_store init dp) = shape (initial_store init p)
       \<and> vals (initial_store init dp) = replicate (prod_list (shape (init p))) 0"
    unfolding zip_params_accumulators by (simp add: initial_store_def np_zeros_def)
qed

theorem shapes_fixed_witness:
  "\<exists>s1 X' Y' s2 LL.
      train_steps \<lparr>max_iter = 2, print_period = 1, lr = 1 / 2, mu = 1 / 2, batch_sz = 1\<rparr>
           \<lparr>pY_of = (\<lambda>ps X. []), cost_of = (\<lambda>ps X Y. 0),
              grad_of = (\<lambda>ps X Y w. ps ! length (takeWhile (\<lambda>v. v \<noteq> w) params))\<rparr>
           [([10 :: nat], [[1]]), ([20], [[1]])]
           (initial_store (\<lambda>v. \<lparr>shape = [2], vals = [4, 8]\<rparr>)) = Some s1
    \<and> shape (s1 W1) = [2] \<and> shape (s1 db4) = [2]
    \<and> theano_training \<lparr>max_iter = 2, print_period = 1, lr = 1 / 2, mu = 1 / 2, batch_sz = 1\<rparr>
           \<lparr>pY_of = (\<lambda>ps X. []), cost_of = (\<lambda>ps X Y. 0),
              grad_of = (\<lambda>ps X Y w. ps ! length (takeWhile (\<lambda>v. v \<noteq> w) params))\<rparr>
           (\<lambda>i. [1, 0]) [10 :: nat, 20] [[1], [1]] [] []
           (initial_store (\<lambda>v. \<lparr>shape = [2], vals = [4, 8]\<rparr>)) = Some (X', Y', s2, LL)
    \<and> shape (s2 W1) = [2] \<and> shape (s2 db4) = [2]
    \<and> initial_store (\<lambda>v. \<lparr>shape = [2], vals = [4, 8]\<rparr>) dW1 = \<lparr>shape = [2], vals = [0, 0]\<rparr>"
proof -
  let ?h = "\<lparr>max_iter = 2, print_period = 1, lr = 1 / 2, mu = 1 / 2, batch_sz = 1\<rparr>"
  let ?ev = "\<lparr>pY_of = (\<lambda>ps X. []), cost_of = (\<lambda>ps X Y. 0),
              grad_of = (\<lambda>ps X Y w. ps ! length (takeWhile (\<lambda>v. v \<noteq> w) params))\<rparr> :: nat evaluator"
  let ?init = "\<lambda>v :: var. \<lparr>shape = [2 :: nat], vals = [4, 8 :: real]\<rparr>"
  let ?s = "initial_store ?init"
  let ?bs = "[([10 :: nat], [[1 :: real]]), ([20], [[1]])]"
  have c: "\<forall>(p, dp)\<in>set (zip params accumulators). shape (?s dp) = shape (?s p)"
    by (simp add: zip_params_accumulators initial_store_def np_zeros_def)
  from train_steps_total [OF c example_grad_shape, where h = ?h and bs = ?bs]
  obtain s1 where a: "train_steps ?h ?ev ?bs ?s = Some s1" by blast
  have "theano_training ?h ?ev (\<lambda>i. [1, 0]) [10, 20] [[1], [1]] [] [] ?s \<noteq> None"
    using epoch_loop_total [OF _ c example_grad_shape, where h = ?h]
    by (simp add: theano_training_def n_batches_def)
  then obtain X' Y' s2 LL where
    b: "theano_training ?h ?ev (\<lambda>i. [1, 0]) [10, 20] [[1], [1]] [] [] ?s = Some (X', Y', s2, LL)"
    by (metis not_None_eq prod_cases4)
  note th = shapes_fixed [where h = ?h and ev = ?ev and bs = ?bs and s = ?s and ?s1.0 = s1
      and perm = "\<lambda>i. [1, 0]" and Xtr = "[10, 20]" and Ytr_ind = "[[1], [1]]" and Xte = "[]" and Yte_ind = "[]"
      and Xtr' = X' and Ytr_ind' = Y' and ?s2.0 = s2 and LL = LL and init = ?init]
  from th a have s1: "\<forall>v. shape (s1 v) = shape (?s v)" by blast
  from th b have s2: "\<forall>v. shape (s2 v) = shape (?s v)" by blast
  from th have "\<forall>(p, dp)\<in>set (zip params accumulators).
         initial_store ?init p = ?init p
       \<and> initial_store ?init dp = np_zeros (shape (?init p))
       \<and> shape (initial_store ?init dp) = shape (initial_store ?init p)
       \<and> vals (initial_store ?init dp) = replicate (prod_list (shape (?init p))) 0"
    by blast
  then have "initial_store ?init dW1 = np_zeros (shape (?init W1))"
    by (simp add: zip_params_accumulators)
  then have i: "initial_store ?init dW1 = \<lparr>shape = [2], vals = [0, 0]\<rparr>"
    by (simp add: np_zeros_def numeral_2_eq_2)
  have "shape (s1 W1) = [2]" "shape (s1 db4) = [2]" "shape (s2 W1) = [2]" "shape (s2 db4) = [2]"
    using s1 s2 by (simp_all add: initial_store_def np_zeros_def)
  with a b i show ?thesis by blast
qed

subsection \<open>The metrics evaluation\<close>

lemma train_print_period:
  "train (h\<lparr>print_period := k\<rparr>) ev = train h ev"
proof -
  have "train_updates (h\<lparr>print_period := k\<rparr>) ev = train_updates h ev"
    by (simp add: train_updates_def fun_eq_iff
        update_W1_def update_b1_def update_W2_def update_b2_def
        update_W3_def update_b3_def update_W4_def update_b4_def
        update_dW1_def update_db1_def update_dW2_def update_db2_def
        update_dW3_def update_db3_def update_dW4_def update_db4_def
        cong: option.case_cong)
  then show ?thesis by (simp add: train_def)
qed

lemma train_steps_print_period:
  "train_steps (h\<lparr>print_period := k\<rparr>) ev bs s = train_steps h ev bs s"
  by (induction bs arbitrary: s) (auto simp: train_print_period split: option.splits)

lemma epoch_loop_store:
  assumes "print_period h \<noteq> 0" and "k \<noteq> 0"
  shows "map_option (\<lambda>(X', Y', s', LL'). (X', Y', s'))
            (epoch_loop (h\<lparr>print_period := k\<rparr>) ev perm Xte2 Yte_ind2 nb is (Xtr, Ytr_ind, s, LL2))
       = map_option (\<lambda>(X', Y', s', LL'). (X', Y', s'))
            (epoch_loop h ev perm Xte Yte_ind nb is (Xtr, Ytr_ind, s, LL))"
proof (induction "is" arbitrary: Xtr Ytr_ind s LL LL2)
  case Nil
  then show ?case by simp
next
  case (Cons i "is")
  obtain Xs Ys where sh: "sk_shuffle (perm i) Xtr Ytr_ind = (Xs, Ys)"
    by (cases "sk_shuffle (perm i) Xtr Ytr_ind")
  let ?h = "h\<lparr>print_period := k\<rparr>"
  let ?js = "py_range (py_int nb)"
  have a: "map_option fst (batch_loop ?h ev Xte2 Yte_ind2 Xs Ys ?js (s, LL2))
      = train_steps h ev (epoch_batches (batch_sz h) Xs Ys ?js) s"
    using batch_loop_store [of ?h ev Xte2 Yte_ind2 Xs Ys ?js s LL2] assms(2)
    by (simp add: train_steps_print_period)
  have b: "map_option fst (batch_loop h ev Xte Yte_ind Xs Ys ?js (s, LL))
      = train_steps h ev (epoch_batches (batch_sz h) Xs Ys ?js) s"
    using batch_loop_store [OF assms(1)] .
  show ?case
  proof (cases "train_steps h ev (epoch_batches (batch_sz h) Xs Ys ?js) s")
    case None
    with a b show ?thesis by (simp add: sh)
  next
    case (Some s1)
    with a obtain L2 where a': "batch_loop ?h ev Xte2 Yte_ind2 Xs Ys ?js (s, LL2) = Some (s1, L2)"
      by (cases "batch_loop ?h ev Xte2 Yte_ind2 Xs Ys ?js (s, LL2)") auto
    from Some b obtain L1 where b': "batch_loop h ev Xte Yte_ind Xs Ys ?js (s, LL) = Some (s1, L1)"
      by (cases "batch_loop h ev Xte Yte_ind Xs Ys ?js (s, LL)") auto
    show ?thesis using Cons.IH [of Xs Ys s1 L2 L1] by (simp add: sh a' b')
  qed
qed

lemma batch_loop_total:
  assumes "print_period h \<noteq> 0"
    and "\<forall>(p, dp)\<in>set (zip params accumulators). shape (s dp) = shape (s p)"
    and "\<forall>s1 X Y. \<forall>p\<in>set params. shape (T_grad ev s1 X Y p) = shape (s1 p)"
  shows "\<exists>s' LL'. batch_loop h ev Xte Yte_ind Xtr Ytr_ind js (s, LL) = Some (s', LL')"
proof -
  from train_steps_total [OF assms(2,3)]
  have "train_steps h ev (epoch_batches (batch_sz h) Xtr Ytr_ind js) s \<noteq> None" .
  with batch_loop_store [OF assms(1), of ev Xte Yte_ind Xtr Ytr_ind js s LL]
  show ?thesis by (cases "batch_loop h ev Xte Yte_ind Xtr Ytr_ind js (s, LL)") auto
qed

text \<open>
  Claim C9. A call of \<^verbatim>\<open>get_prediction\<close> returns the cost and the arg-max predictions on
  the holdout set and leaves the store as it was. So the store after the minibatch loop
  is the one the calls of \<^verbatim>\<open>train\<close> alone produce, and the training set, the labels and
  the store at the end of a run depend neither on how often the metrics are evaluated nor
  on the holdout set.
\<close>

theorem get_prediction_reads_only:
  "get_prediction ev s Xte Yte_ind = Some ((cost ev s Xte Yte_ind, prediction ev s Xte), s)
   \<and> (batch_loop h ev Xte Yte_ind Xtr Ytr_ind js (s, LL) = Some (s', LL')
        \<longrightarrow> train_steps h ev (epoch_batches (batch_sz h) Xtr Ytr_ind js) s = Some s')
   \<and> (print_period h \<noteq> 0 \<and> k \<noteq> 0
        \<longrightarrow> map_option (\<lambda>(X', Y', s', LL'). (X', Y', s'))
               (theano_training (h\<lparr>print_period := k\<rparr>) ev perm Xtr Ytr_ind Xte2 Yte_ind2 s)
            = map_option (\<lambda>(X', Y', s', LL'). (X', Y', s'))
               (theano_training h ev perm Xtr Ytr_ind Xte Yte_ind s))"
proof (intro conjI impI)
  show "get_prediction ev s Xte Yte_ind = Some ((cost ev s Xte Yte_ind, prediction ev s Xte), s)"
    by (rule get_prediction_eq)
next
  assume "batch_loop h ev Xte Yte_ind Xtr Ytr_ind js (s, LL) = Some (s', LL')"
  then show "train_steps h ev (epoch_batches (batch_sz h) Xtr Ytr_ind js) s = Some s'"
    by (rule batch_loop_train_steps)
next
  assume "print_period h \<noteq> 0 \<and> k \<noteq> 0"
  then show "map_option (\<lambda>(X', Y', s', LL'). (X', Y', s'))
               (theano_training (h\<lparr>print_period := k\<rparr>) ev perm Xtr Ytr_ind Xte2 Yte_ind2 s)
            = map_option (\<lambda>(X', Y', s', LL'). (X', Y', s'))
               (theano_training h ev perm Xtr Ytr_ind Xte Yte_ind s)"
    by (cases "n_batches (int (length Xtr)) (batch_sz h)")
       (simp_all add: theano_training_def epoch_loop_store)
qed

theorem get_prediction_reads_only_witness:
  "\<exists>s' LL'.
      batch_loop \<lparr>max_iter = 1, print_period = 1, lr = 1 / 2, mu = 1 / 2, batch_sz = 2\<rparr>
           \<lparr>pY_of = (\<lambda>ps X. map (\<lambda>x. [0, 1]) X), cost_of = (\<lambda>ps X Y. 3),
              grad_of = (\<lambda>ps X Y w. ps ! length (takeWhile (\<lambda>v. v \<noteq> w) params))\<rparr>
           [7 :: nat] [[0, 1]] [10, 20, 30] [[1, 0], [1, 0], [0, 1]] [0]
           (initial_store (\<lambda>v. \<lparr>shape = [2], vals = [4, 8]\<rparr>), []) = Some (s', LL')
    \<and> train_steps \<lparr>max_iter = 1, print_period = 1, lr = 1 / 2, mu = 1 / 2, batch_sz = 2\<rparr>
           \<lparr>pY_of = (\<lambda>ps X. map (\<lambda>x. [0, 1]) X), cost_of = (\<lambda>ps X Y. 3),
              grad_of = (\<lambda>ps X Y w. ps ! length (takeWhile (\<lambda>v. v \<noteq> w) params))\<rparr>
           [([10 :: nat, 20], [[1, 0], [1, 0]])]
           (initial_store (\<lambda>v. \<lparr>shape = [2], vals = [4, 8]\<rparr>)) = Some s'
    \<and> get_prediction
           \<lparr>pY_of = (\<lambda>ps X. map (\<lambda>x. [0, 1]) X), cost_of = (\<lambda>ps X Y. 3),
              grad_of = (\<lambda>ps X Y w. ps ! length (takeWhile (\<lambda>v. v \<noteq> w) params))\<rparr>
           s' [7 :: nat] [[0, 1]] = Some ((3, [1]), s')
    \<and> map_option (\<lambda>(X', Y', s', LL'). (X', Y', s'))
         (theano_training (\<lparr>max_iter = 1, print_period = 1, lr = 1 / 2, mu = 1 / 2, batch_sz = 2\<rparr>
                            \<lparr>print_period := 5\<rparr>)
           \<lparr>pY_of = (\<lambda>ps X. map (\<lambda>x. [0, 1]) X), cost_of = (\<lambda>ps X Y. 3),
              grad_of = (\<lambda>ps X Y w. ps ! length (takeWhile (\<lambda>v. v \<noteq> w) params))\<rparr>
           (\<lambda>i. [2, 0, 1]) [10 :: nat, 20, 30] [[1, 0], [1, 0], [0, 1]] [] []
           (initial_store (\<lambda>v. \<lparr>shape = [2], vals = [4, 8]\<rparr>)))
      = map_option (\<lambda>(X', Y', s', LL'). (X', Y', s'))
         (theano_training \<lparr>max_iter = 1, print_period = 1, lr = 1 / 2, mu = 1 / 2, batch_sz = 2\<rparr>
           \<lparr>pY_of = (\<lambda>ps X. map (\<lambda>x. [0, 1]) X), cost_of = (\<lambda>ps X Y. 3),
              grad_of = (\<lambda>ps X Y w. ps ! length (takeWhile (\<lambda>v. v \<noteq> w) params))\<rparr>
           (\<lambda>i. [2, 0, 1]) [10 :: nat, 20, 30] [[1, 0], [1, 0], [0, 1]] [7] [[0, 1]]
           (initial_store (\<lambda>v. \<lparr>shape = [2], vals = [4, 8]\<rparr>)))"
proof -
  let ?h = "\<lparr>max_iter = 1, print_period = 1, lr = 1 / 2, mu = 1 / 2, batch_sz = 2\<rparr>"
  let ?ev = "\<lparr>pY_of = (\<lambda>ps X. map (\<lambda>x. [0, 1]) X), cost_of = (\<lambda>ps X Y. 3),
              grad_of = (\<lambda>ps X Y w. ps ! length (takeWhile (\<lambda>v. v \<noteq> w) params))\<rparr> :: nat evaluator"
  let ?s = "initial_store (\<lambda>v. \<lparr>shape = [2], vals = [4, 8]\<rparr>)"
  let ?Xtr = "[10 :: nat, 20, 30]"
  let ?Ytr = "[[1, 0], [1, 0], [0, 1 :: real]]"
  have c: "\<forall>(p, dp)\<in>set (zip params accumulators). shape (?s dp) = shape (?s p)"
    by (simp add: zip_params_accumulators initial_store_def np_zeros_def)
  have pp: "print_period ?h \<noteq> 0" by simp
  note gs = example_grad_shape [where pY = "\<lambda>ps X. map (\<lambda>x. [0, 1]) X" and c = "\<lambda>ps X Y. 3"]
  from batch_loop_total [OF pp c gs, where Xte = "[7]" and Yte_ind = "[[0, 1]]" and Xtr = ?Xtr
      and Ytr_ind = ?Ytr and js = "[0]" and LL = "[]"]
  obtain s' LL' where b: "batch_loop ?h ?ev [7] [[0, 1]] ?Xtr ?Ytr [0] (?s, []) = Some (s', LL')"
    by blast
  note th = get_prediction_reads_only [where h = ?h and ev = ?ev and s = ?s and Xte = "[7]"
      and Yte_ind = "[[0, 1]]" and Xtr = ?Xtr and Ytr_ind = ?Ytr and js = "[0]" and LL = "[]"
      and s' = s' and LL' = LL' and k = 5 and perm = "\<lambda>i. [2, 0, 1]" and ?Xte2.0 = "[]" and ?Yte_ind2.0 = "[]"]
  from th b have "train_steps ?h ?ev (epoch_batches (batch_sz ?h) ?Xtr ?Ytr [0]) ?s = Some s'"
    by blast
  then have t: "train_steps ?h ?ev [([10, 20], [[1, 0], [1, 0]])] ?s = Some s'"
    by (simp add: epoch_batches_def Xbatch_def Ybatch_def py_slice_def clamp_index_def Let_def)
  have g: "get_prediction ?ev s' [7] [[0, 1]] = Some ((3, [1]), s')"
    using get_prediction_reads_only [where ev = ?ev and s = s' and Xte = "[7]" and Yte_ind = "[[0, 1]]"]
    by (simp add: cost_def prediction_def)
  from th have "map_option (\<lambda>(X', Y', s', LL'). (X', Y', s'))
         (theano_training (?h\<lparr>print_period := 5\<rparr>) ?ev (\<lambda>i. [2, 0, 1]) ?Xtr ?Ytr [] [] ?s)
      = map_option (\<lambda>(X', Y', s', LL'). (X', Y', s'))
         (theano_training ?h ?ev (\<lambda>i. [2, 0, 1]) ?Xtr ?Ytr [7] [[0, 1]] ?s)"
    by simp
  with b t g show ?thesis by blast
qed

subsection \<open>Minibatches\<close>

lemma n_batches_pos:
  assumes "0 < B"
  shows "n_batches (int N) B = Some (real N / real_of_int B)"
    and "py_int (real N / real_of_int B) = int (N div nat B)"
    and "py_range (py_int (real N / real_of_int B)) = map int [0..<N div nat B]"
proof -
  show "n_batches (int N) B = Some (real N / real_of_int B)"
    using assms by (simp add: n_batches_def)
  have "\<lfloor>real_of_int (int N) / real_of_int B\<rfloor> = int N div B"
    by (rule floor_divide_of_int_eq)
  moreover have "int N div B = int (N div nat B)"
    using assms by (simp add: zdiv_int)
  ultimately show i: "py_int (real N / real_of_int B) = int (N div nat B)"
    using assms by (simp add: py_int_def)
  show "py_range (py_int (real N / real_of_int B)) = map int [0..<N div nat B]"
    by (simp add: i py_range_def)
qed

lemma py_slice_nonneg:
  assumes "0 \<le> a" and "a \<le> b"
  shows "py_slice xs (Some a) (Some b) = take (nat b - nat a) (drop (nat a) xs)"
proof -
  let ?n = "int (length xs)"
  show ?thesis
  proof (cases "a \<le> ?n")
    case True
    then show ?thesis
      using assms by (auto simp: py_slice_def clamp_index_def Let_def min_def nat_diff_distrib)
  next
    case False
    then show ?thesis
      using assms by (auto simp: py_slice_def clamp_index_def Let_def min_def)
  qed
qed

lemma Xbatch_take_drop:
  assumes "0 < B"
  shows "Xbatch B xs (int j) = take (nat B) (drop (j * nat B) xs)"
proof -
  have "nat (int j * B + B) - nat (int j * B) = nat B"
    using assms by (simp add: nat_add_distrib nat_mult_distrib)
  moreover have "nat (int j * B) = j * nat B"
    using assms by (simp add: nat_mult_distrib)
  ultimately show ?thesis
    using assms py_slice_nonneg [of "int j * B" "int j * B + B" xs]
    by (simp add: Xbatch_def)
qed



lemma whole_batch_length:
  assumes "j < length xs div b"
  shows "length (take b (drop (j * b) xs)) = b"
proof -
  from assms have "Suc j \<le> length xs div b" by simp
  then have "Suc j * b \<le> length xs div b * b" by (rule mult_le_mono1)
  also have "\<dots> \<le> length xs" by simp
  finally show ?thesis by simp
qed

lemma div_mult_eq_diff_mod: "(n::nat) div b * b = n - n mod b"
  by (simp add: minus_mod_eq_div_mult)




section \<open>The two notebooks and the rows that fill no batch\<close>





section \<open>Properties of the TensorFlow notebook: the holdout evaluation\<close>

lemma assign_slice_exact:
  assumes "a + length ys \<le> length arr"
  shows "assign_slice arr (int a) (int a + int (length ys)) ys
           = Some (take a arr @ ys @ drop (a + length ys) arr)"
proof -
  have "nat (clamp_index (int (length arr)) (int a)) = a"
    using assms by (simp add: clamp_index_def)
  moreover have "nat (clamp_index (int (length arr)) (int a + int (length ys))) = a + length ys"
    using assms by (simp add: clamp_index_def nat_add_distrib)
  ultimately show ?thesis by (simp add: assign_slice_def Let_def)
qed

lemma test_loop_invariant:
  assumes B: "0 < B"
    and Y: "length Yte_ind = length Xte"
    and P: "\<forall>Xb. int (length Xb) = B \<longrightarrow> length (predict_op g s Xb) = nat B"
    and n: "a + d \<le> length Xte div nat B"
    and pred: "pred = concat (map (\<lambda>k. predict_op g s (take (nat B) (drop (k * nat B) Xte))) [0..<a])
                    @ replicate (length Xte - a * nat B) 0"
  shows "test_loop g B s Xte Yte_ind (map int [a..<a + d]) (c, pred)
     = Some (c + sum_list (map (\<lambda>k. cost_op g s (take (nat B) (drop (k * nat B) Xte))
                                          (take (nat B) (drop (k * nat B) Yte_ind))) [a..<a + d]),
             concat (map (\<lambda>k. predict_op g s (take (nat B) (drop (k * nat B) Xte))) [0..<a + d])
               @ replicate (length Xte - (a + d) * nat B) 0)"
  using n pred
proof (induction d arbitrary: a c pred)
  case 0
  then show ?case by simp
next
  case (Suc d)
  let ?b = "nat B"
  let ?L = "length Xte"
  let ?Xb = "take ?b (drop (a * ?b) Xte)"
  let ?Yb = "take ?b (drop (a * ?b) Yte_ind)"
  let ?P = "\<lambda>k. predict_op g s (take ?b (drop (k * ?b) Xte))"
  have a: "a < ?L div ?b" using Suc.prems(1) by simp
  have lx: "length ?Xb = ?b" using a by (rule whole_batch_length)
  have ly: "length ?Yb = ?b" using a Y whole_batch_length [of a Yte_ind ?b] by simp
  have bint: "int ?b = B" using B by simp
  have sx: "py_slice Xte (Some (int a * B)) (Some (int a * B + B)) = ?Xb"
    using Xbatch_take_drop [OF B, of Xte a] by (simp add: Xbatch_def)
  have sy: "py_slice Yte_ind (Some (int a * B)) (Some (int a * B + B)) = ?Yb"
    using Xbatch_take_drop [OF B, of Yte_ind a] by (simp add: Xbatch_def)
  have rc: "run_cost g B s ?Xb ?Yb = Some (cost_op g s ?Xb ?Yb)"
    using lx ly bint by (simp add: run_cost_def fits_def del: length_take)
  have rp: "run_predict_op g B s ?Xb = Some (?P a)"
    using lx bint by (simp add: run_predict_op_def fits_def del: length_take)
  have lp: "length (?P a) = ?b"
    using P lx bint by (simp del: length_take)
  have lpk: "length (?P k) = ?b" if "k < a" for k
  proof -
    from that a have "k < ?L div ?b" by simp
    then have "length (take ?b (drop (k * ?b) Xte)) = ?b" by (rule whole_batch_length)
    with P bint show ?thesis by (simp del: length_take)
  qed
  have lc: "length (concat (map ?P [0..<a])) = a * ?b"
    using lpk by (induction a) (simp_all add: add.commute)
  have bound: "Suc a * ?b \<le> ?L"
  proof -
    from a have "Suc a \<le> ?L div ?b" by simp
    then have "Suc a * ?b \<le> ?L div ?b * ?b" by (rule mult_le_mono1)
    also have "\<dots> \<le> ?L" by simp
    finally show ?thesis .
  qed
  have lpred: "length pred = ?L"
    using bound by (simp add: Suc.prems(2) lc)
  let ?pred1 = "concat (map ?P [0..<Suc a]) @ replicate (?L - Suc a * ?b) 0"
  have "assign_slice pred (int (a * ?b)) (int (a * ?b) + int (length (?P a))) (?P a)
      = Some (take (a * ?b) pred @ ?P a @ drop (a * ?b + length (?P a)) pred)"
    using bound by (intro assign_slice_exact) (simp add: lpred lp)
  moreover have "take (a * ?b) pred = concat (map ?P [0..<a])"
    by (simp add: Suc.prems(2) lc)
  moreover have "drop (a * ?b + ?b) pred = replicate (?L - Suc a * ?b) 0"
    by (simp add: Suc.prems(2) lc add.commute)
  ultimately have as: "assign_slice pred (int a * B) (int a * B + B) (?P a) = Some ?pred1"
    using bint by (simp add: lp del: length_take)
  have up: "[a..<a + Suc d] = a # [Suc a..<Suc a + d]"
    by (simp add: upt_conv_Cons)
  have ih: "test_loop g B s Xte Yte_ind (map int [Suc a..<Suc a + d]) (c + cost_op g s ?Xb ?Yb, ?pred1)
     = Some (c + cost_op g s ?Xb ?Yb
               + sum_list (map (\<lambda>k. cost_op g s (take ?b (drop (k * ?b) Xte)) (take ?b (drop (k * ?b) Yte_ind)))
                     [Suc a..<Suc a + d]),
             concat (map ?P [0..<Suc a + d]) @ replicate (?L - (Suc a + d) * ?b) 0)"
    using Suc.prems(1) by (intro Suc.IH) simp_all
  show ?case
    unfolding up using ih by (simp add: sx sy rc rp as Let_def del: upt_Suc length_take)
qed

lemma mismatch_count:
  "sum_list (map (\<lambda>(a, b). if a \<noteq> b then 1 else 0) zs)
     = real (length (filter (\<lambda>(a, b). a \<noteq> b) zs))"
  by (induction zs) auto

lemma mismatch_zeros:
  "length ys = r \<Longrightarrow>
     length (filter (\<lambda>(a, b). a \<noteq> b) (zip (replicate r (0::real)) ys)) = length (filter (\<lambda>t. t \<noteq> 0) ys)"
  by (induction ys arbitrary: r) auto

lemma zip_take_length: "zip xs (take (length xs) ys) = zip xs ys"
proof (induction xs arbitrary: ys)
  case Nil
  then show ?case by simp
next
  case (Cons x xs)
  then show ?case by (cases ys) simp_all
qed

lemma error_rate_split:
  assumes "length (A @ replicate r 0) = length t" 
  shows "error_rate (A @ replicate r 0) t
     = (real (length (filter (\<lambda>(a, b). a \<noteq> b) (zip A t)))
          + real (length (filter (\<lambda>x. x \<noteq> 0) (drop (length A) t)))) / real (length t)"
proof -
  let ?m = "length A"
  have t: "t = take ?m t @ drop ?m t" by simp
  have lt: "length (take ?m t) = ?m" and ld: "length (drop ?m t) = r"
    using assms by simp_all
  have "zip (A @ replicate r 0) t = zip A (take ?m t) @ zip (replicate r 0) (drop ?m t)"
    using zip_append [of A "take ?m t" "replicate r 0" "drop ?m t"] lt by simp
  moreover have "zip A (take ?m t) = zip A t"
    by (rule zip_take_length)
  ultimately have z: "zip (A @ replicate r 0) t = zip A t @ zip (replicate r 0) (drop ?m t)"
    by simp
  have len: "length (zip (A @ replicate r 0) t) = length t"
    using assms by simp
  have "error_rate (A @ replicate r 0) t
      = sum_list (map (\<lambda>(a, b). if a \<noteq> b then 1 else 0) (zip (A @ replicate r 0) t)) / real (length t)"
    unfolding error_rate_def np_mean_def using len by (simp del: zip_append1 zip_append2)
  also have "\<dots> = real (length (filter (\<lambda>(a, b). a \<noteq> b) (zip (A @ replicate r 0) t))) / real (length t)"
    by (simp only: mismatch_count)
  also have "\<dots> = (real (length (filter (\<lambda>(a, b). a \<noteq> b) (zip A t)))
          + real (length (filter (\<lambda>x. x \<noteq> 0) (drop ?m t)))) / real (length t)"
    by (simp add: z mismatch_zeros [OF ld])
  finally show ?thesis .
qed

text \<open>
  Claim C10. With \<open>L\<close> holdout rows and batch size \<open>B\<close>, the holdout evaluation runs the
  cost and the prediction on the \<open>L div B\<close> whole batches only. The prediction array holds
  the predictions of these batches followed by \<open>L mod B\<close> entries that keep the 0 of
  \<^verbatim>\<open>np.zeros\<close>; the rows behind them are never fed to the graph. The error rate still
  compares all \<open>L\<close> entries with the labels: every label other than 0 among the last
  \<open>L mod B\<close> counts as an error.
\<close>

theorem holdout_eval_tail:
  assumes "0 < B" and "length Yte_ind = length Xte" and "length Yte = length Xte"
    and "\<forall>Xb. int (length Xb) = B \<longrightarrow> length (predict_op g s Xb) = nat B"
  shows "\<exists>test_cost pred.
       holdout_eval g B s Xte Yte_ind Yte = Some (test_cost, pred, error_rate pred Yte)
     \<and> test_cost = sum_list (map (\<lambda>k. cost_op g s (take (nat B) (drop (k * nat B) Xte))
                                                (take (nat B) (drop (k * nat B) Yte_ind)))
                               [0..<length Xte div nat B])
     \<and> pred = concat (map (\<lambda>k. predict_op g s (take (nat B) (drop (k * nat B) Xte)))
                          [0..<length Xte div nat B])
                @ replicate (length Xte mod nat B) 0
     \<and> length pred = length Xte
     \<and> (\<forall>i. length Xte - length Xte mod nat B \<le> i \<and> i < length Xte \<longrightarrow> pred ! i = 0)
     \<and> error_rate pred Yte
          = (real (length (filter (\<lambda>(a, b). a \<noteq> b)
                      (zip (take (length Xte - length Xte mod nat B) pred) Yte)))
             + real (length (filter (\<lambda>t. t \<noteq> 0) (drop (length Xte - length Xte mod nat B) Yte))))
            / real (length Xte)"
proof -
  let ?b = "nat B"
  let ?L = "length Xte"
  let ?n = "?L div ?b"
  let ?P = "\<lambda>k. predict_op g s (take ?b (drop (k * ?b) Xte))"
  let ?A = "concat (map ?P [0..<?n])"
  let ?pred = "?A @ replicate (?L mod ?b) 0"
  let ?cost = "sum_list (map (\<lambda>k. cost_op g s (take ?b (drop (k * ?b) Xte))
                                                (take ?b (drop (k * ?b) Yte_ind))) [0..<?n])"
  have rng: "py_range (py_int (real ?L / real_of_int B)) = map int [0..<?n]"
    using n_batches_pos(3) [OF assms(1)] .
  have rem: "?L - ?n * ?b = ?L mod ?b"
    by (simp add: div_mult_eq_diff_mod)
  have loop: "test_loop g B s Xte Yte_ind (map int [0..<?n]) (0, replicate ?L 0) = Some (?cost, ?pred)"
    using test_loop_invariant [OF assms(1,2,4), of 0 ?n "replicate ?L 0" 0]
    by (simp add: rem)
  have ev: "holdout_eval g B s Xte Yte_ind Yte = Some (?cost, ?pred, error_rate ?pred Yte)"
    using assms(1) by (simp add: holdout_eval_def rng loop)
  have lk: "length (?P k) = ?b" if "k < ?n" for k
  proof -
    from that have "length (take ?b (drop (k * ?b) Xte)) = ?b" by (rule whole_batch_length)
    with assms(1,4) show ?thesis by (simp del: length_take)
  qed
  have "length (concat (map ?P [0..<m])) = m * ?b" if "m \<le> ?n" for m
    using that lk by (induction m) (simp_all add: add.commute)
  then have lA: "length ?A = ?n * ?b" by simp
  then have lA': "length ?A = ?L - ?L mod ?b" by (simp add: div_mult_eq_diff_mod)
  have lp: "length ?pred = ?L" by (simp add: lA)
  have tail: "\<forall>i. ?L - ?L mod ?b \<le> i \<and> i < ?L \<longrightarrow> ?pred ! i = 0"
  proof (intro allI impI)
    fix i
    assume i: "?L - ?L mod ?b \<le> i \<and> i < ?L"
    have "?L mod ?b \<le> ?L" by (rule mod_less_eq_dividend)
    with i have "i - length ?A < ?L mod ?b" and "\<not> i < length ?A"
      unfolding lA' by arith+
    then show "?pred ! i = 0" by (simp add: nth_append)
  qed
  have tk: "take (?L - ?L mod ?b) ?pred = ?A" using lA' by simp
  have er: "error_rate ?pred Yte
          = (real (length (filter (\<lambda>(a, b). a \<noteq> b) (zip (take (?L - ?L mod ?b) ?pred) Yte)))
             + real (length (filter (\<lambda>t. t \<noteq> 0) (drop (?L - ?L mod ?b) Yte)))) / real ?L"
    using error_rate_split [of ?A "?L mod ?b" Yte] lp assms(3)
    by (simp only: tk lA')
  from ev lp tail er show ?thesis by blast
qed

theorem holdout_eval_tail_witness:
  "holdout_eval \<lparr>train_op = (\<lambda>s X T. s), cost_op = (\<lambda>s X T. 1), predict_op = (\<lambda>s X. map (\<lambda>x. 7) X)\<rparr>
      2 () [10, 20, 30 :: nat] [[1], [1], [1]] [7, 7, 7]
    = Some (1, [7, 7, 0], 1 / 3)"
proof -
  let ?g = "\<lparr>train_op = (\<lambda>s X T. s), cost_op = (\<lambda>s (X :: nat list) T. 1 :: real),
            predict_op = (\<lambda>s (X :: nat list). map (\<lambda>x. 7 :: real) X)\<rparr> :: (unit, nat) graph"
  have h: "\<forall>Xb. int (length Xb) = 2 \<longrightarrow> length (predict_op ?g () Xb) = nat 2"
    by auto
  from holdout_eval_tail [of 2 "[[1], [1], [1]]" "[10, 20, 30 :: nat]" "[7, 7, 7]" ?g "()", OF _ _ _ h]
  obtain test_cost pred where
    r: "holdout_eval ?g 2 () [10, 20, 30] [[1], [1], [1]] [7, 7, 7] = Some (test_cost, pred, error_rate pred [7, 7, 7])"
       "test_cost = sum_list (map (\<lambda>k. cost_op ?g () (take (nat 2) (drop (k * nat 2) [10, 20, 30]))
                                                (take (nat 2) (drop (k * nat 2) [[1], [1], [1]])))
                               [0..<length [10, 20, 30 :: nat] div nat 2])"
       "pred = concat (map (\<lambda>k. predict_op ?g () (take (nat 2) (drop (k * nat 2) [10, 20, 30])))
                          [0..<length [10, 20, 30 :: nat] div nat 2])
                @ replicate (length [10, 20, 30 :: nat] mod nat 2) 0"
    by auto
  have d: "length [10, 20, 30 :: nat] div nat 2 = 1" "length [10, 20, 30 :: nat] mod nat 2 = 1"
    by simp_all
  have "test_cost = 1" using r(2) unfolding d by simp
  moreover have "pred = [7, 7, 0]" using r(3) unfolding d by simp
  moreover have "error_rate [7, 7, 0] [7, 7, 7] = 1 / 3"
    by (simp add: error_rate_def np_mean_def)
  ultimately show ?thesis using r(1) by simp
qed

end
